theory Spec2Isabelle
  imports Complex_Main "HOL-Library.AList" "HOL-Library.Sublist"
begin

section \<open>Data model\<close>

text \<open>
  The orchestrator \<^verbatim>\<open>run_algo_prototype\<close> of \<^verbatim>\<open>main.py\<close> works on pandas
  tables. A table is modelled as the list of its rows, in index order; \<^verbatim>\<open>df.empty\<close> is
  the empty list. Prices are Python floats in the program; here they are real numbers. The
  orchestrator itself does no arithmetic on them: it copies them and compares the signal
  with \<open>0\<close>, \<open>1\<close> and \<open>-1\<close>.
\<close>

type_synonym symbol = string

record bar =
  Date :: string
  Open :: real
  High :: real
  Low :: real
  Close :: real
  Volume :: real

type_synonym frame = "bar list"

text \<open>
  A row of the table returned by \<^verbatim>\<open>strategy.generate_signals\<close>. Its columns beyond
  \<^verbatim>\<open>Close\<close> and \<^verbatim>\<open>Signal\<close> are not read by name in \<^verbatim>\<open>main.py\<close>; they only take
  part in \<^verbatim>\<open>isnull().any()\<close>. A null (NaN) cell is \<open>None\<close>.
\<close>

record sig_row =
  row_date :: string
  row_close :: "real option"
  row_signal :: "int option"
  row_others :: "real option list"

record feature_row =
  fr_features :: "real list"
  fr_label :: int

record trade =
  tr_symbol :: symbol
  entry_date :: string
  entry_price :: real
  exit_date :: string
  exit_price :: real
  quantity :: real
  realized_pnl :: real

record backtest_result =
  initial_capital :: real
  final_capital :: real
  total_pnl :: real
  trade_log :: "trade list"

record pnl_summary =
  pnl_initial_capital :: real
  pnl_final_capital :: real
  pnl_total_pnl :: real

record settings =
  STOCK_SYMBOLS :: "symbol list"
  BACKTEST_DURATION_MONTHS :: nat
  RSI_PERIOD :: nat
  SHORT_MA_PERIOD :: nat
  LONG_MA_PERIOD :: nat
  FEATURES :: "string list"
  TARGET :: string

text \<open>
  The collaborators imported by \<^verbatim>\<open>main.py\<close> (\<^verbatim>\<open>data_fetcher\<close>, \<^verbatim>\<open>ml_predictor\<close>,
  \<^verbatim>\<open>backtester\<close>, \<^verbatim>\<open>google_sheets_manager\<close>) are parameters of the model. \<open>'p\<close> is the
  state of the single \<^verbatim>\<open>MLPredictor\<close> object built at line 42; \<^verbatim>\<open>train_model\<close> is the
  only call that changes it, so it returns the new state next to the accuracy.
\<close>

record 'p components =
  get_historical_data :: "symbol list \<Rightarrow> nat \<Rightarrow> (symbol \<times> frame) list"
  new_predictor :: 'p
  prepare_data_for_ml :: "frame \<Rightarrow> feature_row list"
  train_model :: "'p \<Rightarrow> feature_row list \<Rightarrow> string list \<Rightarrow> string \<Rightarrow> real option \<times> 'p"
  trained :: "'p \<Rightarrow> bool"
  predict_next_day_movement :: "'p \<Rightarrow> frame \<Rightarrow> string list \<Rightarrow> int"
  run_backtest :: "symbol \<Rightarrow> frame \<Rightarrow> backtest_result option"
  generate_signals :: "frame \<Rightarrow> sig_row list"
  get_signal_alerts :: "symbol \<Rightarrow> string \<Rightarrow> string \<Rightarrow> real \<Rightarrow> string"

datatype log_level = Info | Warning | Error

datatype log_msg =
    Msg_starting
  | Msg_fetching "symbol list" nat
  | Msg_no_historical_data
  | Msg_preparing
  | Msg_could_not_prepare symbol
  | Msg_no_data_to_train symbol
  | Msg_accuracies "(symbol \<times> real option) list"
  | Msg_skip_backtest symbol
  | Msg_running_backtest symbol
  | Msg_backtest_no_results symbol
  | Msg_logging_trades
  | Msg_no_trade_logs
  | Msg_updating_summary
  | Msg_no_summary
  | Msg_generating_current
  | Msg_cannot_generate symbol
  | Msg_not_enough_recent symbol
  | Msg_no_clean_signal symbol
  | Msg_latest_signal symbol string string real
  | Msg_ml_prediction symbol string
  | Msg_pred_unavailable symbol string
  | Msg_finished

text \<open>
  Everything the run does to the outside is recorded as an event, in program order: the
  calls to the collaborators (with the symbol being processed and the table handed over)
  and the log lines.
\<close>

datatype event =
    Ev_log log_level log_msg
  | Ev_prepare symbol frame
  | Ev_train symbol "feature_row list"
  | Ev_backtest symbol frame
  | Ev_log_trade_signals "trade list"
  | Ev_update_win_ratio "trade list"
  | Ev_update_summary_pnl "(symbol \<times> pnl_summary) list"
  | Ev_generate_signals symbol frame
  | Ev_predict symbol frame
  | Ev_get_signal_alerts symbol string string real
  | Ev_send_telegram symbol string

datatype py_error = UnboundLocalError

datatype outcome = Returned | Raised py_error

section \<open>pandas operations used by the orchestrator\<close>

text \<open>\<^verbatim>\<open>df.copy()\<close>: a new table with the same rows.\<close>

definition df_copy :: "'a list \<Rightarrow> 'a list" where
  "df_copy df = df"

text \<open>\<^verbatim>\<open>df.tail(n)\<close> for \<open>n \<ge> 0\<close>: the last \<open>n\<close> rows, all rows when there are fewer.\<close>

definition df_tail :: "nat \<Rightarrow> 'a list \<Rightarrow> 'a list" where
  "df_tail n df = drop (length df - n) df"

text \<open>\<^verbatim>\<open>row.isnull().any()\<close> on a row of the signal table.\<close>

definition isnull_any :: "sig_row \<Rightarrow> bool" where
  "isnull_any r \<longleftrightarrow> row_close r = None \<or> row_signal r = None \<or> None \<in> set (row_others r)"

section \<open>Stage 1: training (lines 58--67)\<close>

definition train_step ::
  "'p components \<Rightarrow> settings \<Rightarrow> symbol \<times> frame \<Rightarrow> 'p \<times> (symbol \<times> real option) list
     \<Rightarrow> ('p \<times> (symbol \<times> real option) list) \<times> event list" where
  "train_step K cfg x st =
     (case x of (symbol, df) \<Rightarrow> case st of (p, ml_accuracies) \<Rightarrow>
        if df \<noteq> [] then
          (let ml_data = prepare_data_for_ml K (df_copy df) in
           if ml_data \<noteq> [] then
             (let (accuracy, p') = train_model K p ml_data (FEATURES cfg) (TARGET cfg) in
              ((p', AList.update symbol accuracy ml_accuracies),
               [Ev_prepare symbol (df_copy df), Ev_train symbol ml_data]))
           else
             ((p, ml_accuracies),
              [Ev_prepare symbol (df_copy df), Ev_log Warning (Msg_could_not_prepare symbol)]))
        else ((p, ml_accuracies), [Ev_log Warning (Msg_no_data_to_train symbol)]))"

fun train_loop ::
  "'p components \<Rightarrow> settings \<Rightarrow> (symbol \<times> frame) list \<Rightarrow> 'p \<times> (symbol \<times> real option) list
     \<Rightarrow> ('p \<times> (symbol \<times> real option) list) \<times> event list" where
  "train_loop K cfg [] st = (st, [])"
| "train_loop K cfg (x # xs) st =
     (let (st', evs) = train_step K cfg x st;
          (st'', evs') = train_loop K cfg xs st'
      in (st'', evs @ evs'))"

section \<open>Stage 2: backtests (lines 72--89)\<close>

definition backtest_step ::
  "'p components \<Rightarrow> symbol \<times> frame \<Rightarrow> trade list \<times> (symbol \<times> pnl_summary) list
     \<Rightarrow> (trade list \<times> (symbol \<times> pnl_summary) list) \<times> event list" where
  "backtest_step K x st =
     (case x of (symbol, df) \<Rightarrow> case st of (all_trade_logs, symbol_pnl_results) \<Rightarrow>
        if df = [] then
          ((all_trade_logs, symbol_pnl_results), [Ev_log Warning (Msg_skip_backtest symbol)])
        else
          (case run_backtest K symbol (df_copy df) of
             Some results \<Rightarrow>
               ((if trade_log results \<noteq> [] then all_trade_logs @ trade_log results
                 else all_trade_logs,
                 AList.update symbol
                   \<lparr>pnl_initial_capital = initial_capital results,
                    pnl_final_capital = final_capital results,
                    pnl_total_pnl = total_pnl results\<rparr> symbol_pnl_results),
                [Ev_log Info (Msg_running_backtest symbol), Ev_backtest symbol (df_copy df)])
           | None \<Rightarrow>
               ((all_trade_logs, symbol_pnl_results),
                [Ev_log Info (Msg_running_backtest symbol), Ev_backtest symbol (df_copy df),
                 Ev_log Warning (Msg_backtest_no_results symbol)])))"

fun backtest_loop ::
  "'p components \<Rightarrow> (symbol \<times> frame) list \<Rightarrow> trade list \<times> (symbol \<times> pnl_summary) list
     \<Rightarrow> (trade list \<times> (symbol \<times> pnl_summary) list) \<times> event list" where
  "backtest_loop K [] st = (st, [])"
| "backtest_loop K (x # xs) st =
     (let (st', evs) = backtest_step K x st;
          (st'', evs') = backtest_loop K xs st'
      in (st'', evs @ evs'))"

section \<open>Stage 3: delivery to the sheets (lines 93--106)\<close>

definition deliver_to_sheets :: "trade list \<Rightarrow> (symbol \<times> pnl_summary) list \<Rightarrow> event list" where
  "deliver_to_sheets all_trade_logs symbol_pnl_results =
     (if all_trade_logs \<noteq> [] then
        [Ev_log Info Msg_logging_trades, Ev_log_trade_signals all_trade_logs,
         Ev_update_win_ratio all_trade_logs]
      else [Ev_log Info Msg_no_trade_logs]) @
     (if symbol_pnl_results \<noteq> [] then
        [Ev_log Info Msg_updating_summary, Ev_update_summary_pnl symbol_pnl_results]
      else [Ev_log Info Msg_no_summary])"

section \<open>Stage 4: current signal, prediction and alert (lines 110--161)\<close>

definition signal_window :: "settings \<Rightarrow> nat" where
  "signal_window cfg = max (max (RSI_PERIOD cfg) (SHORT_MA_PERIOD cfg)) (LONG_MA_PERIOD cfg) + 1"

definition prediction_window :: "settings \<Rightarrow> nat" where
  "prediction_window cfg = max (RSI_PERIOD cfg) 26 + 2"

text \<open>
  Lines 124--135: the strategy is run again on the trailing window and the last row is read.
  The result is \<^verbatim>\<open>(current_signal, current_close, current_date)\<close>.
\<close>

definition recompute_signal ::
  "'p components \<Rightarrow> symbol \<Rightarrow> frame \<Rightarrow> frame \<Rightarrow> (int \<times> real \<times> string) \<times> event list" where
  "recompute_signal K symbol df latest_data_for_signal =
     (let processed_latest_data = generate_signals K latest_data_for_signal in
      if processed_latest_data = [] \<or> isnull_any (last processed_latest_data) then
        ((0,
          if df \<noteq> [] then Close (last df) else 0,
          if df \<noteq> [] then Date (last df) else ''N/A''),
         [Ev_generate_signals symbol latest_data_for_signal,
          Ev_log Warning (Msg_no_clean_signal symbol)])
      else
        ((the (row_signal (last processed_latest_data)),
          the (row_close (last processed_latest_data)),
          row_date (last processed_latest_data)),
         [Ev_generate_signals symbol latest_data_for_signal]))"

text \<open>Lines 137--141.\<close>

definition signal_type_of :: "int \<Rightarrow> string" where
  "signal_type_of current_signal =
     (if current_signal = 1 then ''BUY'' else if current_signal = -1 then ''SELL'' else ''HOLD'')"

text \<open>
  Lines 148--155. The local variable \<^verbatim>\<open>next_day_pred\<close> is assigned only in the first
  branch; in the model it is an \<open>int option\<close>, \<open>None\<close> while the name is unbound, and it
  lives across the iterations of the loop as a Python local does. The result is the
  variable after the statement and \<^verbatim>\<open>ml_pred_text\<close>.
\<close>

definition recompute_prediction ::
  "'p components \<Rightarrow> settings \<Rightarrow> 'p \<Rightarrow> symbol \<Rightarrow> frame \<Rightarrow> int option
     \<Rightarrow> (int option \<times> string) \<times> event list" where
  "recompute_prediction K cfg p symbol df next_day_pred =
     (let ml_prediction_input_data = df_copy (df_tail (prediction_window cfg) df) in
      if ml_prediction_input_data \<noteq> [] \<and> trained K p then
        (let pred = predict_next_day_movement K p ml_prediction_input_data (FEATURES cfg);
             ml_pred_text =
               (if pred = 1 then ''Up''
                else if pred = 0 then ''Down/No Change'' else ''N/A - Prediction Failed'')
         in ((Some pred, ml_pred_text),
             [Ev_predict symbol ml_prediction_input_data,
              Ev_log Info (Msg_ml_prediction symbol ml_pred_text)]))
      else
        ((next_day_pred, ''N/A - Model Not Trained or Insufficient Data''),
         [Ev_log Warning
            (Msg_pred_unavailable symbol ''N/A - Model Not Trained or Insufficient Data'')]))"

text \<open>
  Lines 158--161. Python's \<^verbatim>\<open>or\<close> reads \<^verbatim>\<open>next_day_pred\<close> only when
  \<^verbatim>\<open>current_signal != 0\<close> is false; reading the unbound name raises.
\<close>

definition alert_step ::
  "'p components \<Rightarrow> symbol \<Rightarrow> int \<Rightarrow> real \<Rightarrow> string \<Rightarrow> int option \<Rightarrow> string
     \<Rightarrow> outcome \<times> event list" where
  "alert_step K symbol current_signal current_close current_date next_day_pred ml_pred_text =
     (let alert =
            [Ev_get_signal_alerts symbol current_date (signal_type_of current_signal) current_close,
             Ev_send_telegram symbol
               (get_signal_alerts K symbol current_date (signal_type_of current_signal) current_close
                  @ [CHR 0x0A] @ ''ML Prediction (Next Day): '' @ ml_pred_text)]
      in if current_signal \<noteq> 0 then (Returned, alert)
         else (case next_day_pred of
                 None \<Rightarrow> (Raised UnboundLocalError, [])
               | Some v \<Rightarrow> if v \<noteq> -1 then (Returned, alert) else (Returned, [])))"

text \<open>
  One iteration of the loop of lines 110--161. The result is either the error raised or the
  value of \<^verbatim>\<open>next_day_pred\<close> carried to the next iteration, with the events up to there.
\<close>

definition signal_step ::
  "'p components \<Rightarrow> settings \<Rightarrow> 'p \<Rightarrow> int option \<Rightarrow> symbol \<times> frame
     \<Rightarrow> (py_error + int option) \<times> event list" where
  "signal_step K cfg p next_day_pred x =
     (case x of (symbol, df) \<Rightarrow>
        if df = [] then (Inr next_day_pred, [Ev_log Warning (Msg_cannot_generate symbol)])
        else
          (let latest_data_for_signal = df_copy (df_tail (signal_window cfg) df) in
           if latest_data_for_signal = [] then
             (Inr next_day_pred, [Ev_log Warning (Msg_not_enough_recent symbol)])
           else
             (case recompute_signal K symbol df latest_data_for_signal of
                ((current_signal, current_close, current_date), evs1) \<Rightarrow>
              case recompute_prediction K cfg p symbol df next_day_pred of
                ((next_day_pred', ml_pred_text), evs2) \<Rightarrow>
              case alert_step K symbol current_signal current_close current_date
                     next_day_pred' ml_pred_text of
                (res, evs3) \<Rightarrow>
                  ((case res of Raised e \<Rightarrow> Inl e | Returned \<Rightarrow> Inr next_day_pred'),
                   evs1 @
                   [Ev_log Info
                      (Msg_latest_signal symbol current_date (signal_type_of current_signal)
                         current_close)] @
                   evs2 @ evs3))))"

fun signal_loop ::
  "'p components \<Rightarrow> settings \<Rightarrow> 'p \<Rightarrow> int option \<Rightarrow> (symbol \<times> frame) list
     \<Rightarrow> outcome \<times> event list" where
  "signal_loop K cfg p next_day_pred [] = (Returned, [])"
| "signal_loop K cfg p next_day_pred (x # xs) =
     (case signal_step K cfg p next_day_pred x of
        (Inl e, evs) \<Rightarrow> (Raised e, evs)
      | (Inr next_day_pred', evs) \<Rightarrow>
          (let (res, evs') = signal_loop K cfg p next_day_pred' xs in (res, evs @ evs')))"

section \<open>The whole run\<close>

text \<open>
  \<^verbatim>\<open>run_algo_prototype\<close> from line 52 on, for the mapping \<open>hist\<close> that the provider
  returned. A Python dict iterates in insertion order, so the mapping is the list
  of its items; its keys are distinct.
\<close>

definition process_historical_data ::
  "'p components \<Rightarrow> settings \<Rightarrow> (symbol \<times> frame) list \<Rightarrow> outcome \<times> event list" where
  "process_historical_data K cfg hist =
     (if hist = [] then (Returned, [Ev_log Error Msg_no_historical_data])
      else
        (case train_loop K cfg hist (new_predictor K, []) of
           ((p, ml_accuracies), evs1) \<Rightarrow>
         case backtest_loop K hist ([], []) of
           ((all_trade_logs, symbol_pnl_results), evs2) \<Rightarrow>
         case signal_loop K cfg p None hist of
           (res, evs4) \<Rightarrow>
             (res,
              [Ev_log Info Msg_preparing] @ evs1 @ [Ev_log Info (Msg_accuracies ml_accuracies)] @
              evs2 @ deliver_to_sheets all_trade_logs symbol_pnl_results @
              [Ev_log Info Msg_generating_current] @ evs4 @
              (case res of Returned \<Rightarrow> [Ev_log Info Msg_finished] | Raised e \<Rightarrow> []))))"

text \<open>Line 50: the mapping fetched from the provider.\<close>

definition historical_data :: "'p components \<Rightarrow> settings \<Rightarrow> (symbol \<times> frame) list" where
  "historical_data K cfg =
     get_historical_data K (STOCK_SYMBOLS cfg) (BACKTEST_DURATION_MONTHS cfg)"

definition run_algo_prototype :: "'p components \<Rightarrow> settings \<Rightarrow> outcome \<times> event list" where
  "run_algo_prototype K cfg =
     (case process_historical_data K cfg (historical_data K cfg) of
        (res, evs) \<Rightarrow>
          (res,
           [Ev_log Info Msg_starting,
            Ev_log Info (Msg_fetching (STOCK_SYMBOLS cfg) (BACKTEST_DURATION_MONTHS cfg))] @ evs))"

section \<open>The collaborators, as far as the specification fixes them\<close>

subsection \<open>Backtest simulation engine\<close>

text \<open>
  Modelled from the spec: the module \<^verbatim>\<open>backtester\<close> (its \<^verbatim>\<open>Backtester.run_backtest\<close>) is
  imported by \<^verbatim>\<open>main.py\<close> and is not among the sources. The definitions follow section 4.2
  of the specification: a single long-only position; on BUY while flat a position of
  \<open>capital / close\<close> shares is opened; on SELL while long it is closed at the bar's close
  price, a trade with \<open>realized_pnl = quantity * (exit_price - entry_price)\<close> is recorded and
  the capital is credited; undefined and HOLD signals change nothing; at the end of the data
  an open position is marked to market for \<open>final_capital\<close> and is not recorded as a trade;
  the result is empty when there is no bar or no bar carries a defined signal. A row without
  a close price changes nothing. The arithmetic is exact (real numbers).
\<close>

text \<open>Modelled from the spec: the Position of section 3 (\<^verbatim>\<open>backtester\<close> is missing).\<close>

record position =
  pos_entry_date :: string
  pos_entry_price :: real
  pos_quantity :: real

text \<open>
  Modelled from the spec: the simulated account of section 4.2 (\<^verbatim>\<open>backtester\<close> is missing):
  capital on hand, the open position if any, the closed trades so far.
\<close>

record bt_state =
  capital :: real
  open_position :: "position option"
  closed_trades :: "trade list"

text \<open>
  Modelled from the spec: one bar of the simulation of section 4.2 (\<^verbatim>\<open>backtester\<close> is
  missing), the transitions FLAT to LONG on BUY and LONG to FLAT on SELL.
\<close>

definition backtest_bar :: "symbol \<Rightarrow> bt_state \<Rightarrow> sig_row \<Rightarrow> bt_state" where
  "backtest_bar symb st r =
     (case row_close r of
        None \<Rightarrow> st
      | Some price \<Rightarrow>
          (case open_position st of
             None \<Rightarrow>
               if row_signal r = Some 1 then
                 st\<lparr>open_position :=
                      Some \<lparr>pos_entry_date = row_date r, pos_entry_price = price,
                            pos_quantity = capital st / price\<rparr>\<rparr>
               else st
           | Some pos \<Rightarrow>
               if row_signal r = Some (-1) then
                 (let pnl = pos_quantity pos * (price - pos_entry_price pos) in
                  st\<lparr>capital := capital st + pnl,
                     open_position := None,
                     closed_trades := closed_trades st @
                       [\<lparr>tr_symbol = symb, entry_date = pos_entry_date pos,
                         entry_price = pos_entry_price pos, exit_date = row_date r,
                         exit_price = price, quantity = pos_quantity pos,
                         realized_pnl = pnl\<rparr>]\<rparr>)
               else st))"

text \<open>
  Modelled from the spec: the bars are replayed in date order from a flat account holding
  the initial capital (section 4.2; \<^verbatim>\<open>backtester\<close> is missing).
\<close>

definition simulate :: "symbol \<Rightarrow> real \<Rightarrow> sig_row list \<Rightarrow> bt_state" where
  "simulate symb init rows =
     foldl (backtest_bar symb) \<lparr>capital = init, open_position = None, closed_trades = []\<rparr> rows"

text \<open>
  Modelled from the spec: the final close price of the data, against which an open position
  is marked to market (section 4.2; \<^verbatim>\<open>backtester\<close> is missing).
\<close>

definition final_close :: "sig_row list \<Rightarrow> real option" where
  "final_close rows = (case filter (\<lambda>r. row_close r \<noteq> None) rows of
                         [] \<Rightarrow> None | r # rs \<Rightarrow> row_close (last (r # rs)))"

text \<open>
  Modelled from the spec: the unrealized profit of a position still open at the end of the
  data (section 4.2; \<^verbatim>\<open>backtester\<close> is missing).
\<close>

definition unrealized_pnl :: "bt_state \<Rightarrow> sig_row list \<Rightarrow> real" where
  "unrealized_pnl st rows =
     (case open_position st of
        None \<Rightarrow> 0
      | Some pos \<Rightarrow>
          (case final_close rows of
             None \<Rightarrow> 0
           | Some price \<Rightarrow> pos_quantity pos * (price - pos_entry_price pos)))"

text \<open>
  Modelled from the spec: \<^verbatim>\<open>run_backtest\<close> of the missing module \<^verbatim>\<open>backtester\<close>, for a signal
  generator \<open>gen\<close> and an initial capital \<open>init\<close>. \<open>final_capital\<close> is the initial capital
  plus the realized profit plus the unrealized profit of a still open position (section
  4.2); \<open>total_pnl\<close> is that realized plus unrealized profit (sections 3 and 8).
\<close>

definition spec_run_backtest ::
  "(frame \<Rightarrow> sig_row list) \<Rightarrow> real \<Rightarrow> symbol \<Rightarrow> frame \<Rightarrow> backtest_result option" where
  "spec_run_backtest gen init symb df =
     (let rows = gen df in
      if rows = [] \<or> (\<forall>r \<in> set rows. row_signal r = None) then None
      else
        (let st = simulate symb init rows in
         Some \<lparr>initial_capital = init,
               final_capital = capital st + unrealized_pnl st rows,
               total_pnl = sum_list (map realized_pnl (closed_trades st)) + unrealized_pnl st rows,
               trade_log = closed_trades st\<rparr>))"

subsection \<open>Concrete collaborators for the examples\<close>

text \<open>
  Modelled from the spec: the modules \<^verbatim>\<open>strategy\<close>, \<^verbatim>\<open>ml_predictor\<close>,
  \<^verbatim>\<open>google_sheets_manager\<close> and \<^verbatim>\<open>data_fetcher\<close> are not among the sources. The closed
  examples below run the orchestrator against the following small collaborators, which keep
  the contracts of sections 4.1 and 4.3 of the specification that the orchestrator relies on:
  \<^item> the signal of a bar is undefined while fewer bars than the signal window
    \<open>max(RSI, SHORT, LONG) + 1\<close> have been seen, and is one of \<open>1\<close>, \<open>0\<close>, \<open>-1\<close> afterwards
    (here: the direction of the close price against the previous bar);
  \<^item> feature rows exist only for bars that have \<open>fw\<close> predecessors (the warm-up of the
    features) and a successor (the label is the direction of the next close);
  \<^item> the predictor is untrained until \<^verbatim>\<open>train_model\<close> is called; its state is the table
    it was last fitted on; a prediction is \<open>-1\<close> when the predictor is untrained or the
    window has no usable row, and a class label \<open>0\<close> or \<open>1\<close> otherwise (here: the label of
    the last row it was fitted on).
\<close>

text \<open>
  Modelled from the spec: the rows of \<^verbatim>\<open>generate_signals\<close> of the missing module
  \<^verbatim>\<open>strategy\<close> (section 4.1), with an undefined signal inside the warm-up of \<open>w\<close> bars.
\<close>

fun stub_signal_rows :: "nat \<Rightarrow> nat \<Rightarrow> real \<Rightarrow> frame \<Rightarrow> sig_row list" where
  "stub_signal_rows w i prev [] = []"
| "stub_signal_rows w i prev (b # bs) =
     \<lparr>row_date = Date b, row_close = Some (Close b),
      row_signal = (if Suc i < w then None
                    else Some (if prev < Close b then 1 else if Close b < prev then -1 else 0)),
      row_others = [Some (Volume b)]\<rparr>
     # stub_signal_rows w (Suc i) (Close b) bs"

text \<open>
  Modelled from the spec: \<^verbatim>\<open>generate_signals\<close> of the missing module \<^verbatim>\<open>strategy\<close>
  (section 4.1); the output keeps the order and the length of the input.
\<close>

definition stub_generate_signals :: "settings \<Rightarrow> frame \<Rightarrow> sig_row list" where
  "stub_generate_signals cfg df =
     stub_signal_rows (signal_window cfg) 0 (case df of [] \<Rightarrow> 0 | b # bs \<Rightarrow> Close b) df"

text \<open>
  Modelled from the spec: the feature rows of the missing module \<^verbatim>\<open>ml_predictor\<close>
  (section 4.3); the label is \<open>1\<close> when the next close is not lower, and the final bar has
  no row.
\<close>

fun stub_feature_rows :: "frame \<Rightarrow> feature_row list" where
  "stub_feature_rows (b # c # bs) =
     \<lparr>fr_features = [Close b, Volume b], fr_label = (if Close b \<le> Close c then 1 else 0)\<rparr>
     # stub_feature_rows (c # bs)"
| "stub_feature_rows bs = []"

text \<open>
  Modelled from the spec: \<^verbatim>\<open>prepare_data_for_ml\<close> of the missing module \<^verbatim>\<open>ml_predictor\<close>
  (section 4.3): the rows of the warm-up are dropped.
\<close>

definition stub_prepare_data_for_ml :: "nat \<Rightarrow> frame \<Rightarrow> feature_row list" where
  "stub_prepare_data_for_ml fw df = drop fw (stub_feature_rows df)"

text \<open>
  Modelled from the spec: \<^verbatim>\<open>predict_next_day_movement\<close> of the missing module
  \<^verbatim>\<open>ml_predictor\<close> (section 4.3): \<open>-1\<close> when untrained or when the window has no usable
  row.
\<close>

definition stub_predict :: "nat \<Rightarrow> feature_row list option \<Rightarrow> frame \<Rightarrow> string list \<Rightarrow> int" where
  "stub_predict fw p window features =
     (case p of
        None \<Rightarrow> -1
      | Some fitted \<Rightarrow> if length window \<le> fw \<or> fitted = [] then -1 else fr_label (last fitted))"

text \<open>
  Modelled from the spec: the collaborators together, for a provider that returns the
  mapping \<open>provided\<close> (the modules \<^verbatim>\<open>data_fetcher\<close>, \<^verbatim>\<open>ml_predictor\<close>, \<^verbatim>\<open>backtester\<close>,
  \<^verbatim>\<open>strategy\<close> and \<^verbatim>\<open>google_sheets_manager\<close> are missing). \<^verbatim>\<open>train_model\<close> fits the
  single predictor on the rows it is given and reports accuracy \<open>1\<close>.
\<close>

definition stub_components ::
  "settings \<Rightarrow> nat \<Rightarrow> (symbol \<times> frame) list \<Rightarrow> feature_row list option components" where
  "stub_components cfg fw provided =
     \<lparr>get_historical_data = (\<lambda>symbols months. provided),
      new_predictor = None,
      prepare_data_for_ml = stub_prepare_data_for_ml fw,
      train_model = (\<lambda>p ml_data features target. (Some 1, Some ml_data)),
      trained = (\<lambda>p. p \<noteq> None),
      predict_next_day_movement = stub_predict fw,
      run_backtest = spec_run_backtest (stub_generate_signals cfg) 100000,
      generate_signals = stub_generate_signals cfg,
      get_signal_alerts = (\<lambda>symbol date signal_type price. symbol @ '' '' @ signal_type)\<rparr>"

text \<open>Example data: bars with a given date and close price, and a configuration.\<close>

definition mk_bar :: "string \<Rightarrow> real \<Rightarrow> bar" where
  "mk_bar d c = \<lparr>Date = d, Open = c, High = c, Low = c, Close = c, Volume = 1000\<rparr>"

definition small_cfg :: settings where
  "small_cfg = \<lparr>STOCK_SYMBOLS = [''A'', ''B''], BACKTEST_DURATION_MONTHS = 6,
                RSI_PERIOD = 2, SHORT_MA_PERIOD = 2, LONG_MA_PERIOD = 4,
                FEATURES = [''RSI'', ''MACD'', ''Volume''], TARGET = ''Target''\<rparr>"

definition rising :: frame where
  "rising = [mk_bar ''2024-01-01'' 10, mk_bar ''2024-01-02'' 11, mk_bar ''2024-01-03'' 12]"

definition falling :: frame where
  "falling = [mk_bar ''2024-01-01'' 10, mk_bar ''2024-01-02'' 9, mk_bar ''2024-01-03'' 8]"

definition trending :: frame where
  "trending = [mk_bar ''2024-01-01'' 10, mk_bar ''2024-01-02'' 10, mk_bar ''2024-01-03'' 10,
               mk_bar ''2024-01-04'' 10, mk_bar ''2024-01-05'' 10, mk_bar ''2024-01-08'' 20,
               mk_bar ''2024-01-09'' 30, mk_bar ''2024-01-10'' 25]"

definition buy_series :: frame where
  "buy_series = [mk_bar ''2024-01-01'' 10, mk_bar ''2024-01-02'' 10, mk_bar ''2024-01-03'' 10,
                 mk_bar ''2024-01-04'' 10, mk_bar ''2024-01-05'' 11]"

definition hold_series :: frame where
  "hold_series = [mk_bar ''2024-01-01'' 10, mk_bar ''2024-01-02'' 10, mk_bar ''2024-01-03'' 10,
                  mk_bar ''2024-01-04'' 10, mk_bar ''2024-01-05'' 10]"

section \<open>Reading the event sequence\<close>

text \<open>The symbol an event belongs to, if it belongs to one.\<close>

fun msg_symbol :: "log_msg \<Rightarrow> symbol option" where
  "msg_symbol (Msg_could_not_prepare s) = Some s"
| "msg_symbol (Msg_no_data_to_train s) = Some s"
| "msg_symbol (Msg_skip_backtest s) = Some s"
| "msg_symbol (Msg_running_backtest s) = Some s"
| "msg_symbol (Msg_backtest_no_results s) = Some s"
| "msg_symbol (Msg_cannot_generate s) = Some s"
| "msg_symbol (Msg_not_enough_recent s) = Some s"
| "msg_symbol (Msg_no_clean_signal s) = Some s"
| "msg_symbol (Msg_latest_signal s d t c) = Some s"
| "msg_symbol (Msg_ml_prediction s t) = Some s"
| "msg_symbol (Msg_pred_unavailable s t) = Some s"
| "msg_symbol m = None"

fun ev_symbol :: "event \<Rightarrow> symbol option" where
  "ev_symbol (Ev_log l m) = msg_symbol m"
| "ev_symbol (Ev_prepare s df) = Some s"
| "ev_symbol (Ev_train s rows) = Some s"
| "ev_symbol (Ev_backtest s df) = Some s"
| "ev_symbol (Ev_generate_signals s df) = Some s"
| "ev_symbol (Ev_predict s df) = Some s"
| "ev_symbol (Ev_get_signal_alerts s d t c) = Some s"
| "ev_symbol (Ev_send_telegram s m) = Some s"
| "ev_symbol e = None"

definition symbols_of :: "event list \<Rightarrow> symbol list" where
  "symbols_of evs = List.map_filter ev_symbol evs"

text \<open>
  The part of the run an event belongs to: \<open>0\<close> start-up and fetch, \<open>1\<close> feature
  preparation and training (lines 57--69), \<open>2\<close> backtest (lines 72--89), \<open>3\<close> delivery to
  the sheets (lines 93--106), \<open>4\<close> current signal, prediction and alert (lines 109--161),
  \<open>5\<close> the closing log line.
\<close>

fun msg_stage :: "log_msg \<Rightarrow> nat" where
  "msg_stage Msg_starting = 0"
| "msg_stage (Msg_fetching syms months) = 0"
| "msg_stage Msg_no_historical_data = 0"
| "msg_stage Msg_preparing = 1"
| "msg_stage (Msg_could_not_prepare s) = 1"
| "msg_stage (Msg_no_data_to_train s) = 1"
| "msg_stage (Msg_accuracies accs) = 1"
| "msg_stage (Msg_skip_backtest s) = 2"
| "msg_stage (Msg_running_backtest s) = 2"
| "msg_stage (Msg_backtest_no_results s) = 2"
| "msg_stage Msg_logging_trades = 3"
| "msg_stage Msg_no_trade_logs = 3"
| "msg_stage Msg_updating_summary = 3"
| "msg_stage Msg_no_summary = 3"
| "msg_stage Msg_generating_current = 4"
| "msg_stage (Msg_cannot_generate s) = 4"
| "msg_stage (Msg_not_enough_recent s) = 4"
| "msg_stage (Msg_no_clean_signal s) = 4"
| "msg_stage (Msg_latest_signal s d t c) = 4"
| "msg_stage (Msg_ml_prediction s t) = 4"
| "msg_stage (Msg_pred_unavailable s t) = 4"
| "msg_stage Msg_finished = 5"

fun stage_of :: "event \<Rightarrow> nat" where
  "stage_of (Ev_log l m) = msg_stage m"
| "stage_of (Ev_prepare s df) = 1"
| "stage_of (Ev_train s rows) = 1"
| "stage_of (Ev_backtest s df) = 2"
| "stage_of (Ev_log_trade_signals ts) = 3"
| "stage_of (Ev_update_win_ratio ts) = 3"
| "stage_of (Ev_update_summary_pnl ps) = 3"
| "stage_of (Ev_generate_signals s df) = 4"
| "stage_of (Ev_predict s df) = 4"
| "stage_of (Ev_get_signal_alerts s d t c) = 4"
| "stage_of (Ev_send_telegram s m) = 4"

text \<open>
  The events of one symbol form one block: after dropping repetitions of the same symbol
  next to each other, no symbol is left twice.
\<close>

definition symbol_by_symbol :: "event list \<Rightarrow> bool" where
  "symbol_by_symbol evs \<longleftrightarrow> distinct (remdups_adj (symbols_of evs))"

text \<open>Training, backtesting and delivery to the sheets: the work an aborted run leaves out.\<close>

fun is_processing :: "event \<Rightarrow> bool" where
  "is_processing (Ev_prepare s df) = True"
| "is_processing (Ev_train s rows) = True"
| "is_processing (Ev_backtest s df) = True"
| "is_processing (Ev_log_trade_signals ts) = True"
| "is_processing (Ev_update_win_ratio ts) = True"
| "is_processing (Ev_update_summary_pnl ps) = True"
| "is_processing e = False"

text \<open>A call to a collaborator, as opposed to a log line.\<close>

fun is_call :: "event \<Rightarrow> bool" where
  "is_call (Ev_log l m) = False"
| "is_call e = True"

section \<open>The fetched tables as shared objects\<close>

text \<open>
  In the program a table is an object: \<^verbatim>\<open>historical_data\<close> maps each symbol to a reference,
  and a collaborator that is handed a table could change it in place. To state that the
  fetched tables survive the run, the run is modelled a second time over a store of tables.
  A collaborator now has, next to the result it returns (the components above), an effect on
  the table it is handed: an arbitrary function from the rows it finds to the rows it
  leaves. \<^verbatim>\<open>main.py\<close> itself assigns to no table.
\<close>

type_synonym ref = nat

record store =
  tables :: "ref \<Rightarrow> frame"
  next_ref :: ref
  handed :: "ref list"

record 'p effects =
  eff_prepare_data_for_ml :: "frame \<Rightarrow> frame"
  eff_run_backtest :: "symbol \<Rightarrow> frame \<Rightarrow> frame"
  eff_generate_signals :: "frame \<Rightarrow> frame"
  eff_predict_next_day_movement :: "'p \<Rightarrow> frame \<Rightarrow> frame"

text \<open>A new table object with the given rows.\<close>

definition new_table :: "frame \<Rightarrow> store \<Rightarrow> ref \<times> store" where
  "new_table rows h =
     (next_ref h, h\<lparr>tables := (tables h)(next_ref h := rows), next_ref := Suc (next_ref h)\<rparr>)"

text \<open>\<^verbatim>\<open>df.copy()\<close> and \<^verbatim>\<open>df.tail(n)\<close>: both return a new object.\<close>

definition copy_table :: "ref \<Rightarrow> store \<Rightarrow> ref \<times> store" where
  "copy_table r h = new_table (df_copy (tables h r)) h"

definition tail_table :: "nat \<Rightarrow> ref \<Rightarrow> store \<Rightarrow> ref \<times> store" where
  "tail_table n r h = new_table (df_tail n (tables h r)) h"

text \<open>
  Handing the table at \<open>r\<close> to a collaborator: the collaborator's effect is applied to that
  table, and the reference is recorded.
\<close>

definition hand_over :: "(frame \<Rightarrow> frame) \<Rightarrow> ref \<Rightarrow> store \<Rightarrow> store" where
  "hand_over eff r h = h\<lparr>tables := (tables h)(r := eff (tables h r)), handed := handed h @ [r]\<rparr>"

text \<open>Lines 58--67 over the store.\<close>

definition train_step_h ::
  "'p components \<Rightarrow> 'p effects \<Rightarrow> settings \<Rightarrow> symbol \<times> ref
     \<Rightarrow> 'p \<times> (symbol \<times> real option) list \<Rightarrow> store
     \<Rightarrow> (('p \<times> (symbol \<times> real option) list) \<times> event list) \<times> store" where
  "train_step_h K E cfg x st h =
     (case x of (symbol, df) \<Rightarrow> case st of (p, ml_accuracies) \<Rightarrow>
        if tables h df \<noteq> [] then
          (case copy_table df h of (c, h1) \<Rightarrow>
           let handed_rows = tables h1 c;
               ml_data = prepare_data_for_ml K handed_rows;
               h2 = hand_over (eff_prepare_data_for_ml E) c h1
           in if ml_data \<noteq> [] then
                (let (accuracy, p') = train_model K p ml_data (FEATURES cfg) (TARGET cfg) in
                 (((p', AList.update symbol accuracy ml_accuracies),
                   [Ev_prepare symbol handed_rows, Ev_train symbol ml_data]), h2))
              else
                (((p, ml_accuracies),
                  [Ev_prepare symbol handed_rows, Ev_log Warning (Msg_could_not_prepare symbol)]),
                 h2))
        else (((p, ml_accuracies), [Ev_log Warning (Msg_no_data_to_train symbol)]), h))"

fun train_loop_h ::
  "'p components \<Rightarrow> 'p effects \<Rightarrow> settings \<Rightarrow> (symbol \<times> ref) list
     \<Rightarrow> 'p \<times> (symbol \<times> real option) list \<Rightarrow> store
     \<Rightarrow> (('p \<times> (symbol \<times> real option) list) \<times> event list) \<times> store" where
  "train_loop_h K E cfg [] st h = ((st, []), h)"
| "train_loop_h K E cfg (x # xs) st h =
     (case train_step_h K E cfg x st h of ((st', evs), h') \<Rightarrow>
      case train_loop_h K E cfg xs st' h' of ((st'', evs'), h'') \<Rightarrow>
        ((st'', evs @ evs'), h''))"

text \<open>Lines 72--89 over the store.\<close>

definition backtest_step_h ::
  "'p components \<Rightarrow> 'p effects \<Rightarrow> symbol \<times> ref
     \<Rightarrow> trade list \<times> (symbol \<times> pnl_summary) list \<Rightarrow> store
     \<Rightarrow> ((trade list \<times> (symbol \<times> pnl_summary) list) \<times> event list) \<times> store" where
  "backtest_step_h K E x st h =
     (case x of (symbol, df) \<Rightarrow> case st of (all_trade_logs, symbol_pnl_results) \<Rightarrow>
        if tables h df = [] then
          (((all_trade_logs, symbol_pnl_results), [Ev_log Warning (Msg_skip_backtest symbol)]), h)
        else
          (case copy_table df h of (c, h1) \<Rightarrow>
           let handed_rows = tables h1 c;
               h2 = hand_over (eff_run_backtest E symbol) c h1
           in case run_backtest K symbol handed_rows of
             Some results \<Rightarrow>
               (((if trade_log results \<noteq> [] then all_trade_logs @ trade_log results
                  else all_trade_logs,
                  AList.update symbol
                    \<lparr>pnl_initial_capital = initial_capital results,
                     pnl_final_capital = final_capital results,
                     pnl_total_pnl = total_pnl results\<rparr> symbol_pnl_results),
                 [Ev_log Info (Msg_running_backtest symbol), Ev_backtest symbol handed_rows]),
                h2)
           | None \<Rightarrow>
               (((all_trade_logs, symbol_pnl_results),
                 [Ev_log Info (Msg_running_backtest symbol), Ev_backtest symbol handed_rows,
                  Ev_log Warning (Msg_backtest_no_results symbol)]),
                h2)))"

fun backtest_loop_h ::
  "'p components \<Rightarrow> 'p effects \<Rightarrow> (symbol \<times> ref) list
     \<Rightarrow> trade list \<times> (symbol \<times> pnl_summary) list \<Rightarrow> store
     \<Rightarrow> ((trade list \<times> (symbol \<times> pnl_summary) list) \<times> event list) \<times> store" where
  "backtest_loop_h K E [] st h = ((st, []), h)"
| "backtest_loop_h K E (x # xs) st h =
     (case backtest_step_h K E x st h of ((st', evs), h') \<Rightarrow>
      case backtest_loop_h K E xs st' h' of ((st'', evs'), h'') \<Rightarrow>
        ((st'', evs @ evs'), h''))"

text \<open>
  Lines 110--161 over the store. The strategy is handed the copy of the trailing window;
  the close and the date of the fallback are read from the fetched table after that call;
  the predictor is handed the copy of its own trailing window.
\<close>

definition signal_step_h ::
  "'p components \<Rightarrow> 'p effects \<Rightarrow> settings \<Rightarrow> 'p \<Rightarrow> int option \<Rightarrow> symbol \<times> ref \<Rightarrow> store
     \<Rightarrow> ((py_error + int option) \<times> event list) \<times> store" where
  "signal_step_h K E cfg p next_day_pred x h =
     (case x of (symbol, df) \<Rightarrow>
        if tables h df = [] then
          ((Inr next_day_pred, [Ev_log Warning (Msg_cannot_generate symbol)]), h)
        else
          (case tail_table (signal_window cfg) df h of (t, h1) \<Rightarrow>
           case copy_table t h1 of (latest_data_for_signal, h2) \<Rightarrow>
           if tables h2 latest_data_for_signal = [] then
             ((Inr next_day_pred, [Ev_log Warning (Msg_not_enough_recent symbol)]), h2)
           else
             (let handed_rows = tables h2 latest_data_for_signal;
                  h3 = hand_over (eff_generate_signals E) latest_data_for_signal h2
              in
              case recompute_signal K symbol (tables h3 df) handed_rows of
                ((current_signal, current_close, current_date), evs1) \<Rightarrow>
              case tail_table (prediction_window cfg) df h3 of (t', h4) \<Rightarrow>
              case copy_table t' h4 of (ml_prediction_input_data, h5) \<Rightarrow>
              let input_rows = tables h5 ml_prediction_input_data;
                  predicted = (input_rows \<noteq> [] \<and> trained K p);
                  pred = predict_next_day_movement K p input_rows (FEATURES cfg);
                  ml_pred_text =
                    (if predicted then
                       (if pred = 1 then ''Up''
                        else if pred = 0 then ''Down/No Change'' else ''N/A - Prediction Failed'')
                     else ''N/A - Model Not Trained or Insufficient Data'');
                  next_day_pred' = (if predicted then Some pred else next_day_pred);
                  evs2 =
                    (if predicted then
                       [Ev_predict symbol input_rows,
                        Ev_log Info (Msg_ml_prediction symbol ml_pred_text)]
                     else [Ev_log Warning (Msg_pred_unavailable symbol ml_pred_text)]);
                  h6 = (if predicted
                        then hand_over (eff_predict_next_day_movement E p)
                               ml_prediction_input_data h5
                        else h5)
              in
              case alert_step K symbol current_signal current_close current_date
                     next_day_pred' ml_pred_text of
                (res, evs3) \<Rightarrow>
                  (((case res of Raised e \<Rightarrow> Inl e | Returned \<Rightarrow> Inr next_day_pred'),
                    evs1 @
                    [Ev_log Info
                       (Msg_latest_signal symbol current_date (signal_type_of current_signal)
                          current_close)] @
                    evs2 @ evs3),
                   h6))))"

fun signal_loop_h ::
  "'p components \<Rightarrow> 'p effects \<Rightarrow> settings \<Rightarrow> 'p \<Rightarrow> int option \<Rightarrow> (symbol \<times> ref) list
     \<Rightarrow> store \<Rightarrow> (outcome \<times> event list) \<times> store" where
  "signal_loop_h K E cfg p next_day_pred [] h = ((Returned, []), h)"
| "signal_loop_h K E cfg p next_day_pred (x # xs) h =
     (case signal_step_h K E cfg p next_day_pred x h of
        ((Inl e, evs), h') \<Rightarrow> ((Raised e, evs), h')
      | ((Inr next_day_pred', evs), h') \<Rightarrow>
          (case signal_loop_h K E cfg p next_day_pred' xs h' of
             ((res, evs'), h'') \<Rightarrow> ((res, evs @ evs'), h'')))"

text \<open>The run from line 52 on, over the store; \<open>hist\<close> maps the symbols to references.\<close>

definition process_historical_data_h ::
  "'p components \<Rightarrow> 'p effects \<Rightarrow> settings \<Rightarrow> (symbol \<times> ref) list \<Rightarrow> store
     \<Rightarrow> (outcome \<times> event list) \<times> store" where
  "process_historical_data_h K E cfg hist h =
     (if hist = [] then ((Returned, [Ev_log Error Msg_no_historical_data]), h)
      else
        (case train_loop_h K E cfg hist (new_predictor K, []) h of
           (((p, ml_accuracies), evs1), h1) \<Rightarrow>
         case backtest_loop_h K E hist ([], []) h1 of
           (((all_trade_logs, symbol_pnl_results), evs2), h2) \<Rightarrow>
         case signal_loop_h K E cfg p None hist h2 of
           ((res, evs4), h3) \<Rightarrow>
             ((res,
               [Ev_log Info Msg_preparing] @ evs1 @ [Ev_log Info (Msg_accuracies ml_accuracies)] @
               evs2 @ deliver_to_sheets all_trade_logs symbol_pnl_results @
               [Ev_log Info Msg_generating_current] @ evs4 @
               (case res of Returned \<Rightarrow> [Ev_log Info Msg_finished] | Raised e \<Rightarrow> [])),
              h3)))"

text \<open>The rows behind the references of the mapping.\<close>

definition contents :: "store \<Rightarrow> (symbol \<times> ref) list \<Rightarrow> (symbol \<times> frame) list" where
  "contents h hist = map (\<lambda>(symbol, df). (symbol, tables h df)) hist"

text \<open>
  \<open>h'\<close> extends \<open>h\<close>: every table that exists in \<open>h\<close> has the same rows in \<open>h'\<close>, and the
  tables handed to collaborators since \<open>h\<close> are objects created since \<open>h\<close>.
\<close>

definition extends :: "store \<Rightarrow> store \<Rightarrow> bool" where
  "extends h h' \<longleftrightarrow>
     next_ref h \<le> next_ref h' \<and>
     (\<forall>r < next_ref h. tables h' r = tables h r) \<and>
     (\<forall>r \<in> set (handed h'). r \<in> set (handed h) \<or> next_ref h \<le> r)"

text \<open>Every reference of the mapping points to a table of the store.\<close>

definition allocated :: "store \<Rightarrow> (symbol \<times> ref) list \<Rightarrow> bool" where
  "allocated h hist \<longleftrightarrow> (\<forall>(symbol, df) \<in> set hist. df < next_ref h)"

text \<open>Collaborators that wipe every table they are handed, and a store with two tables.\<close>

definition wiping :: "'p effects" where
  "wiping = \<lparr>eff_prepare_data_for_ml = (\<lambda>rows. []), eff_run_backtest = (\<lambda>symbol rows. []),
             eff_generate_signals = (\<lambda>rows. []),
             eff_predict_next_day_movement = (\<lambda>p rows. [])\<rparr>"

definition two_tables :: store where
  "two_tables = \<lparr>tables = (\<lambda>r. if r = 0 then rising else if r = 1 then falling else []),
                 next_ref = 2, handed = []\<rparr>"

section \<open>Properties\<close>

lemmas orchestrator_defs =
  process_historical_data_def run_algo_prototype_def historical_data_def train_step_def backtest_step_def
  signal_step_def recompute_signal_def recompute_prediction_def alert_step_def
  deliver_to_sheets_def signal_window_def prediction_window_def signal_type_of_def
  df_copy_def df_tail_def isnull_any_def

lemmas stub_defs =
  stub_components_def small_cfg_def mk_bar_def stub_prepare_data_for_ml_def
  stub_generate_signals_def stub_predict_def spec_run_backtest_def rising_def falling_def

lemma prediction_window_pos: "0 < prediction_window cfg"
  by (simp add: prediction_window_def)

lemma signal_window_pos: "0 < signal_window cfg"
  by (simp add: signal_window_def)

lemma df_tail_eq_Nil [simp]: "df_tail n df = [] \<longleftrightarrow> df = [] \<or> n = 0"
proof (cases df)
  case Nil
  then show ?thesis by (simp add: df_tail_def)
next
  case (Cons a as)
  then show ?thesis by (cases n) (auto simp: df_tail_def)
qed

subsection \<open>Events of one iteration\<close>

lemma train_step_events:
  assumes "e \<in> set (snd (train_step K cfg (s, df) st))"
  shows "stage_of e = 1 \<and> ev_symbol e = Some s"
  using assms
  by (cases st) (auto simp: train_step_def Let_def split: if_splits prod.splits)

lemma train_step_processing:
  assumes "e \<in> set (snd (train_step K cfg (s, df) st))" and "is_processing e"
  shows "df \<noteq> []"
  using assms
  by (cases st) (auto simp: train_step_def Let_def split: if_splits prod.splits)

lemma train_step_prepare:
  "Ev_prepare s' fr \<in> set (snd (train_step K cfg (s, df) st)) \<longleftrightarrow> s' = s \<and> fr = df \<and> df \<noteq> []"
  by (cases st) (auto simp: train_step_def Let_def df_copy_def split: if_splits prod.splits)

lemma backtest_step_events:
  assumes "e \<in> set (snd (backtest_step K (s, df) st))"
  shows "stage_of e = 2 \<and> ev_symbol e = Some s"
  using assms
  by (cases st) (auto simp: backtest_step_def split: if_splits option.splits)

lemma backtest_step_processing:
  assumes "e \<in> set (snd (backtest_step K (s, df) st))" and "is_processing e"
  shows "df \<noteq> []"
  using assms
  by (cases st) (auto simp: backtest_step_def split: if_splits option.splits)

lemma backtest_step_backtest:
  "Ev_backtest s' fr \<in> set (snd (backtest_step K (s, df) st)) \<longleftrightarrow> s' = s \<and> fr = df \<and> df \<noteq> []"
  by (cases st) (auto simp: backtest_step_def df_copy_def split: if_splits option.splits)

lemma backtest_step_empty: "backtest_step K (s, []) st = (st, [Ev_log Warning (Msg_skip_backtest s)])"
  by (cases st) (simp add: backtest_step_def)

lemma deliver_events:
  assumes "e \<in> set (deliver_to_sheets ts ps)"
  shows "stage_of e = 3 \<and> ev_symbol e = None"
  using assms by (auto simp: deliver_to_sheets_def split: if_splits)

lemma deliver_nothing: "e \<in> set (deliver_to_sheets [] []) \<Longrightarrow> \<not> is_call e"
  by (auto simp: deliver_to_sheets_def)

lemma recompute_signal_events:
  assumes "recompute_signal K s df w = (r, evs)" and "e \<in> set evs"
  shows "e = Ev_generate_signals s w \<or> e = Ev_log Warning (Msg_no_clean_signal s)"
  using assms by (auto simp: recompute_signal_def Let_def split: if_splits)

lemma recompute_signal_call:
  assumes "recompute_signal K s df w = (r, evs)"
  shows "Ev_generate_signals s w \<in> set evs"
  using assms by (auto simp: recompute_signal_def Let_def split: if_splits)

lemma recompute_prediction_events:
  assumes "recompute_prediction K cfg p s df ndp = (r, evs)" and "e \<in> set evs"
  shows "(e = Ev_predict s (df_tail (prediction_window cfg) df) \<and> trained K p) \<or>
         (\<exists>t. e = Ev_log Info (Msg_ml_prediction s t)) \<or>
         (\<exists>t. e = Ev_log Warning (Msg_pred_unavailable s t) \<and>
              \<not> (df_tail (prediction_window cfg) df \<noteq> [] \<and> trained K p))"
  using assms by (auto simp: recompute_prediction_def Let_def df_copy_def split: if_splits)

lemma recompute_prediction_call:
  assumes "recompute_prediction K cfg p s df ndp = (r, evs)" and "df \<noteq> []" and "trained K p"
  shows "Ev_predict s (df_tail (prediction_window cfg) df) \<in> set evs"
  using assms prediction_window_pos [of cfg]
  by (auto simp: recompute_prediction_def Let_def df_copy_def)

lemma alert_step_events:
  assumes "alert_step K s c cl d ndp t = (r, evs)" and "e \<in> set evs"
  shows "(\<exists>a b x. e = Ev_get_signal_alerts s a b x) \<or> (\<exists>m. e = Ev_send_telegram s m)"
  using assms by (auto simp: alert_step_def Let_def split: if_splits option.splits)

lemma signal_step_cases:
  obtains (empty) "df = []"
      "signal_step K cfg p ndp (s, df) = (Inr ndp, [Ev_log Warning (Msg_cannot_generate s)])"
  | (run) c cl d evs1 n t evs2 res evs3 where "df \<noteq> []"
      "recompute_signal K s df (df_tail (signal_window cfg) df) = ((c, cl, d), evs1)"
      "recompute_prediction K cfg p s df ndp = ((n, t), evs2)"
      "alert_step K s c cl d n t = (res, evs3)"
      "signal_step K cfg p ndp (s, df) =
         ((case res of Raised e \<Rightarrow> Inl e | Returned \<Rightarrow> Inr n),
          evs1 @ [Ev_log Info (Msg_latest_signal s d (signal_type_of c) cl)] @ evs2 @ evs3)"
proof (cases "df = []")
  case True
  then show ?thesis using empty by (simp add: signal_step_def)
next
  case False
  obtain c cl d evs1 where r1:
    "recompute_signal K s df (df_tail (signal_window cfg) df) = ((c, cl, d), evs1)"
    by (metis prod_cases3 surj_pair)
  obtain n t evs2 where r2: "recompute_prediction K cfg p s df ndp = ((n, t), evs2)"
    by (metis surj_pair)
  obtain res evs3 where r3: "alert_step K s c cl d n t = (res, evs3)"
    by (metis surj_pair)
  have w: "df_tail (signal_window cfg) df \<noteq> []"
    using False signal_window_pos [of cfg] by simp
  have "signal_step K cfg p ndp (s, df) =
         ((case res of Raised e \<Rightarrow> Inl e | Returned \<Rightarrow> Inr n),
          evs1 @ [Ev_log Info (Msg_latest_signal s d (signal_type_of c) cl)] @ evs2 @ evs3)"
    using False w by (simp add: signal_step_def df_copy_def r1 r2 r3)
  with False r1 r2 r3 show ?thesis using run by blast
qed

lemma signal_step_events:
  assumes "e \<in> set (snd (signal_step K cfg p ndp (s, df)))"
  shows "stage_of e = 4 \<and> ev_symbol e = Some s"
proof (cases rule: signal_step_cases [of df K cfg p ndp s])
  case empty
  with assms show ?thesis by simp
next
  case (run c cl d evs1 n t evs2 res evs3)
  from assms run(5) consider "e \<in> set evs1" | "e = Ev_log Info (Msg_latest_signal s d (signal_type_of c) cl)"
    | "e \<in> set evs2" | "e \<in> set evs3" by auto
  then show ?thesis
  proof cases
    case 1
    from recompute_signal_events [OF run(2) 1] show ?thesis by auto
  next
    case 2
    then show ?thesis by simp
  next
    case 3
    from recompute_prediction_events [OF run(3) 3] show ?thesis by auto
  next
    case 4
    from alert_step_events [OF run(4) 4] show ?thesis by auto
  qed
qed

lemma signal_step_call:
  assumes "e \<in> set (snd (signal_step K cfg p ndp (s, df)))" and "is_call e"
  shows "df \<noteq> []"
  using assms by (cases rule: signal_step_cases [of df K cfg p ndp s]) auto

lemma signal_step_generate:
  "Ev_generate_signals s' fr \<in> set (snd (signal_step K cfg p ndp (s, df))) \<longleftrightarrow>
     s' = s \<and> fr = df_tail (signal_window cfg) df \<and> df \<noteq> []"
proof (cases rule: signal_step_cases [of df K cfg p ndp s])
  case empty
  then show ?thesis by simp
next
  case (run c cl d evs1 n t evs2 res evs3)
  have a: "Ev_generate_signals s' fr \<in> set evs1 \<longleftrightarrow> s' = s \<and> fr = df_tail (signal_window cfg) df"
    using recompute_signal_events [OF run(2), of "Ev_generate_signals s' fr"]
      recompute_signal_call [OF run(2)] by auto
  have b: "Ev_generate_signals s' fr \<notin> set evs2"
    using recompute_prediction_events [OF run(3), of "Ev_generate_signals s' fr"] by auto
  have c: "Ev_generate_signals s' fr \<notin> set evs3"
    using alert_step_events [OF run(4), of "Ev_generate_signals s' fr"] by auto
  show ?thesis using a b c run(1) by (simp add: run(5))
qed

lemma signal_step_predict:
  "Ev_predict s' fr \<in> set (snd (signal_step K cfg p ndp (s, df))) \<longleftrightarrow>
     s' = s \<and> fr = df_tail (prediction_window cfg) df \<and> df \<noteq> [] \<and> trained K p"
proof (cases rule: signal_step_cases [of df K cfg p ndp s])
  case empty
  then show ?thesis by simp
next
  case (run c cl d evs1 n t evs2 res evs3)
  have a: "Ev_predict s' fr \<notin> set evs1"
    using recompute_signal_events [OF run(2), of "Ev_predict s' fr"] by auto
  have b: "Ev_predict s' fr \<in> set evs2 \<longleftrightarrow>
             s' = s \<and> fr = df_tail (prediction_window cfg) df \<and> trained K p"
    using recompute_prediction_events [OF run(3), of "Ev_predict s' fr"]
      recompute_prediction_call [OF run(3) run(1)]
    by auto
  have c: "Ev_predict s' fr \<notin> set evs3"
    using alert_step_events [OF run(4), of "Ev_predict s' fr"] by auto
  show ?thesis using a b c run(1) by (simp add: run(5))
qed

subsection \<open>Events of the loops\<close>

lemma symbols_of_append [simp]: "symbols_of (xs @ ys) = symbols_of xs @ symbols_of ys"
  by (simp add: symbols_of_def List.map_filter_def)

lemma symbols_of_Nil [simp]: "symbols_of [] = []"
  by (simp add: symbols_of_def List.map_filter_def)

lemma symbols_of_same:
  assumes "\<forall>e \<in> set evs. ev_symbol e = Some s"
  shows "symbols_of evs = replicate (length evs) s"
  using assms by (induction evs) (auto simp: symbols_of_def List.map_filter_def)

lemma symbols_of_none:
  assumes "\<forall>e \<in> set evs. ev_symbol e = None"
  shows "symbols_of evs = []"
  using assms by (induction evs) (auto simp: symbols_of_def List.map_filter_def)

lemma remdups_adj_block:
  "subseq (remdups_adj (replicate n s @ r)) (s # remdups_adj r)"
proof (induction n)
  case 0
  show ?case by simp (rule list_emb_Cons, rule subseq_order.refl)
next
  case (Suc n)
  show ?case
  proof (cases n)
    case 0
    then show ?thesis by (cases r) (auto intro: list_emb_Cons)
  next
    case (Suc m)
    with Suc.IH show ?thesis by simp
  qed
qed

lemma block_subseq:
  assumes "subseq (remdups_adj r) ks"
  shows "subseq (remdups_adj (replicate n s @ r)) (s # ks)"
proof -
  have "subseq (s # remdups_adj r) (s # ks)" using assms by simp
  with remdups_adj_block [of n s r] show ?thesis by (rule subseq_order.trans)
qed

lemma train_loop_stage:
  "e \<in> set (snd (train_loop K cfg xs st)) \<Longrightarrow> stage_of e = 1"
proof (induction xs arbitrary: st)
  case Nil
  then show ?case by simp
next
  case (Cons x xs)
  obtain s df where x: "x = (s, df)" by (cases x)
  obtain st' evs where t: "train_step K cfg (s, df) st = (st', evs)" by (cases "train_step K cfg (s, df) st")
  from Cons.prems have "e \<in> set evs \<or> e \<in> set (snd (train_loop K cfg xs st'))"
    by (auto simp: x t split: prod.splits)
  then show ?case
  proof
    assume "e \<in> set evs"
    with train_step_events [of e K cfg s df st] t show ?thesis by simp
  next
    assume "e \<in> set (snd (train_loop K cfg xs st'))"
    then show ?thesis by (rule Cons.IH)
  qed
qed

lemma train_loop_symbols:
  "subseq (remdups_adj (symbols_of (snd (train_loop K cfg xs st)))) (map fst xs)"
proof (induction xs arbitrary: st)
  case Nil
  then show ?case by simp
next
  case (Cons x xs)
  obtain s df where x: "x = (s, df)" by (cases x)
  obtain st' evs where t: "train_step K cfg (s, df) st = (st', evs)" by (cases "train_step K cfg (s, df) st")
  have "\<forall>e \<in> set evs. ev_symbol e = Some s"
    using train_step_events [of _ K cfg s df st] t by simp
  then have sy: "symbols_of evs = replicate (length evs) s" by (rule symbols_of_same)
  have "snd (train_loop K cfg (x # xs) st) = evs @ snd (train_loop K cfg xs st')"
    by (simp add: x t split: prod.splits)
  then show ?case
    using block_subseq [OF Cons.IH [of st'], of "length evs" s] by (simp add: sy x)
qed

lemma train_loop_processing:
  assumes "e \<in> set (snd (train_loop K cfg xs st))" and "is_processing e"
  shows "\<exists>s df. ev_symbol e = Some s \<and> (s, df) \<in> set xs \<and> df \<noteq> []"
  using assms
proof (induction xs arbitrary: st)
  case Nil
  then show ?case by simp
next
  case (Cons x xs)
  obtain s df where x: "x = (s, df)" by (cases x)
  obtain st' evs where t: "train_step K cfg (s, df) st = (st', evs)" by (cases "train_step K cfg (s, df) st")
  from Cons.prems(1) have "e \<in> set evs \<or> e \<in> set (snd (train_loop K cfg xs st'))"
    by (auto simp: x t split: prod.splits)
  then show ?case
  proof
    assume a: "e \<in> set evs"
    with train_step_events [of e K cfg s df st] train_step_processing [of e K cfg s df st]
      t Cons.prems(2)
    show ?thesis by (auto simp: x)
  next
    assume "e \<in> set (snd (train_loop K cfg xs st'))"
    from Cons.IH [OF this Cons.prems(2)] show ?thesis by auto
  qed
qed

lemma train_loop_prepare:
  "Ev_prepare s fr \<in> set (snd (train_loop K cfg xs st)) \<longleftrightarrow> (s, fr) \<in> set xs \<and> fr \<noteq> []"
proof (induction xs arbitrary: st)
  case Nil
  then show ?case by simp
next
  case (Cons x xs)
  obtain s' df where x: "x = (s', df)" by (cases x)
  obtain st' evs where t: "train_step K cfg (s', df) st = (st', evs)" by (cases "train_step K cfg (s', df) st")
  have "Ev_prepare s fr \<in> set evs \<longleftrightarrow> s = s' \<and> fr = df \<and> df \<noteq> []"
    using train_step_prepare [of s fr K cfg s' df st] t by simp
  moreover have "snd (train_loop K cfg (x # xs) st) = evs @ snd (train_loop K cfg xs st')"
    by (simp add: x t split: prod.splits)
  ultimately show ?case using Cons.IH [of st'] by (auto simp: x)
qed

lemma train_loop_Cons:
  assumes "train_step K cfg (s, df) st = (st', evs)"
  shows "train_loop K cfg ((s, df) # xs) st =
           (fst (train_loop K cfg xs st'), evs @ snd (train_loop K cfg xs st'))"
  using assms by (simp split: prod.splits)

lemma backtest_loop_Cons:
  assumes "backtest_step K (s, df) st = (st', evs)"
  shows "backtest_loop K ((s, df) # xs) st =
       (fst (backtest_loop K xs st'), evs @ snd (backtest_loop K xs st'))"
  using assms by (simp split: prod.splits)

lemma backtest_loop_stage:
  "e \<in> set (snd (backtest_loop K xs st)) \<Longrightarrow> stage_of e = 2"
proof (induction xs arbitrary: st)
  case Nil
  then show ?case by simp
next
  case (Cons x xs)
  obtain s df where x: "x = (s, df)" by (cases x)
  obtain st' evs where t: "backtest_step K (s, df) st = (st', evs)"
    by (cases "backtest_step K (s, df) st")
  note l = backtest_loop_Cons [OF t, of xs]
  from Cons.prems have "e \<in> set evs \<or> e \<in> set (snd (backtest_loop K xs st'))"
    unfolding x l by auto
  then show ?case
  proof
    assume "e \<in> set evs"
    with backtest_step_events [of e K s df st] t show ?thesis by simp
  next
    assume "e \<in> set (snd (backtest_loop K xs st'))"
    then show ?thesis by (rule Cons.IH)
  qed
qed

lemma backtest_loop_symbols:
  "subseq (remdups_adj (symbols_of (snd (backtest_loop K xs st)))) (map fst xs)"
proof (induction xs arbitrary: st)
  case Nil
  then show ?case by simp
next
  case (Cons x xs)
  obtain s df where x: "x = (s, df)" by (cases x)
  obtain st' evs where t: "backtest_step K (s, df) st = (st', evs)"
    by (cases "backtest_step K (s, df) st")
  note l = backtest_loop_Cons [OF t, of xs]
  have "\<forall>e \<in> set evs. ev_symbol e = Some s"
    using backtest_step_events [of _ K s df st] t by simp
  then have sy: "symbols_of evs = replicate (length evs) s" by (rule symbols_of_same)
  show ?case
    unfolding x l using block_subseq [OF Cons.IH [of st'], of "length evs" s] by (simp add: sy)
qed

lemma backtest_loop_processing:
  assumes "e \<in> set (snd (backtest_loop K xs st))" and "is_processing e"
  shows "\<exists>s df. ev_symbol e = Some s \<and> (s, df) \<in> set xs \<and> df \<noteq> []"
  using assms
proof (induction xs arbitrary: st)
  case Nil
  then show ?case by simp
next
  case (Cons x xs)
  obtain s df where x: "x = (s, df)" by (cases x)
  obtain st' evs where t: "backtest_step K (s, df) st = (st', evs)"
    by (cases "backtest_step K (s, df) st")
  note l = backtest_loop_Cons [OF t, of xs]
  from Cons.prems(1) have "e \<in> set evs \<or> e \<in> set (snd (backtest_loop K xs st'))"
    unfolding x l by auto
  then show ?case
  proof
    assume a: "e \<in> set evs"
    with backtest_step_events [of e K s df st] backtest_step_processing [of e K s df st]
      t Cons.prems(2)
    show ?thesis by (auto simp: x)
  next
    assume "e \<in> set (snd (backtest_loop K xs st'))"
    from Cons.IH [OF this Cons.prems(2)] show ?thesis by auto
  qed
qed

lemma backtest_loop_backtest:
  "Ev_backtest s fr \<in> set (snd (backtest_loop K xs st)) \<longleftrightarrow> (s, fr) \<in> set xs \<and> fr \<noteq> []"
proof (induction xs arbitrary: st)
  case Nil
  then show ?case by simp
next
  case (Cons x xs)
  obtain s' df where x: "x = (s', df)" by (cases x)
  obtain st' evs where t: "backtest_step K (s', df) st = (st', evs)"
    by (cases "backtest_step K (s', df) st")
  note l = backtest_loop_Cons [OF t, of xs]
  have "Ev_backtest s fr \<in> set evs \<longleftrightarrow> s = s' \<and> fr = df \<and> df \<noteq> []"
    using backtest_step_backtest [of s fr K s' df st] t by simp
  then show ?case unfolding x l using Cons.IH [of st'] by auto
qed

lemma backtest_loop_all_empty:
  assumes "\<forall>(s, df) \<in> set xs. df = []"
  shows "fst (backtest_loop K xs st) = st"
  using assms
proof (induction xs arbitrary: st)
  case Nil
  then show ?case by simp
next
  case (Cons x xs)
  obtain s df where x: "x = (s, df)" by (cases x)
  with Cons.prems have e: "df = []" by simp
  note l = backtest_loop_Cons [OF backtest_step_empty [of K s st], of xs]
  from Cons.prems have "\<forall>(s, df) \<in> set xs. df = []" by simp
  from Cons.IH [OF this, of st] show ?case unfolding x e l by simp
qed

subsection \<open>signal loop\<close>

lemma signal_loop_Cons:
  obtains (raised) e evs where "signal_step K cfg p ndp (s, df) = (Inl e, evs)"
      "signal_loop K cfg p ndp ((s, df) # xs) = (Raised e, evs)"
  | (continued) n evs where "signal_step K cfg p ndp (s, df) = (Inr n, evs)"
      "signal_loop K cfg p ndp ((s, df) # xs) =
         (fst (signal_loop K cfg p n xs), evs @ snd (signal_loop K cfg p n xs))"
proof (cases "signal_step K cfg p ndp (s, df)")
  case (Pair r evs)
  show ?thesis
  proof (cases r)
    case (Inl e)
    with Pair raised show ?thesis by simp
  next
    case (Inr n)
    with Pair continued show ?thesis by (simp split: prod.splits)
  qed
qed

lemma signal_loop_events:
  assumes "e \<in> set (snd (signal_loop K cfg p ndp xs))"
  shows "\<exists>s df n. (s, df) \<in> set xs \<and> e \<in> set (snd (signal_step K cfg p n (s, df)))"
  using assms
proof (induction xs arbitrary: ndp)
  case Nil
  then show ?case by simp
next
  case (Cons x xs)
  obtain s df where x: "x = (s, df)" by (cases x)
  show ?case
  proof (cases rule: signal_loop_Cons [of K cfg p ndp s df xs])
    case (raised err evs)
    from Cons.prems have "e \<in> set (snd (signal_step K cfg p ndp (s, df)))"
      unfolding x raised by simp
    then show ?thesis unfolding x by auto
  next
    case (continued n evs)
    from Cons.prems have "e \<in> set (snd (signal_step K cfg p ndp (s, df))) \<or>
        e \<in> set (snd (signal_loop K cfg p n xs))" unfolding x continued by auto
    then show ?thesis
    proof
      assume "e \<in> set (snd (signal_step K cfg p ndp (s, df)))"
      then show ?thesis unfolding x by auto
    next
      assume "e \<in> set (snd (signal_loop K cfg p n xs))"
      from Cons.IH [OF this] show ?thesis by auto
    qed
  qed
qed

lemma signal_loop_stage:
  assumes "e \<in> set (snd (signal_loop K cfg p ndp xs))"
  shows "stage_of e = 4"
proof -
  from signal_loop_events [OF assms] obtain s df n where
    "e \<in> set (snd (signal_step K cfg p n (s, df)))" by blast
  from signal_step_events [OF this] show ?thesis by simp
qed

lemma signal_loop_call:
  assumes "e \<in> set (snd (signal_loop K cfg p ndp xs))" and "is_call e"
  shows "\<exists>s df. ev_symbol e = Some s \<and> (s, df) \<in> set xs \<and> df \<noteq> []"
proof -
  from signal_loop_events [OF assms(1)] obtain s df n where
    a: "(s, df) \<in> set xs" and b: "e \<in> set (snd (signal_step K cfg p n (s, df)))" by blast
  from signal_step_events [OF b] signal_step_call [OF b assms(2)] a show ?thesis by blast
qed

lemma signal_loop_generate:
  assumes "Ev_generate_signals s fr \<in> set (snd (signal_loop K cfg p ndp xs))"
  shows "\<exists>df. (s, df) \<in> set xs \<and> df \<noteq> [] \<and> fr = df_tail (signal_window cfg) df"
proof -
  from signal_loop_events [OF assms] obtain s' df n where
    a: "(s', df) \<in> set xs"
    and b: "Ev_generate_signals s fr \<in> set (snd (signal_step K cfg p n (s', df)))" by blast
  from b have "s = s' \<and> fr = df_tail (signal_window cfg) df \<and> df \<noteq> []"
    using signal_step_generate [of s fr K cfg p n s' df] by blast
  with a show ?thesis by blast
qed

lemma signal_loop_predict:
  assumes "Ev_predict s fr \<in> set (snd (signal_loop K cfg p ndp xs))"
  shows "\<exists>df. (s, df) \<in> set xs \<and> df \<noteq> [] \<and> fr = df_tail (prediction_window cfg) df \<and> trained K p"
proof -
  from signal_loop_events [OF assms] obtain s' df n where
    a: "(s', df) \<in> set xs"
    and b: "Ev_predict s fr \<in> set (snd (signal_step K cfg p n (s', df)))" by blast
  from b have "s = s' \<and> fr = df_tail (prediction_window cfg) df \<and> df \<noteq> [] \<and> trained K p"
    using signal_step_predict [of s fr K cfg p n s' df] by blast
  with a show ?thesis by blast
qed

lemma signal_loop_symbols:
  "subseq (remdups_adj (symbols_of (snd (signal_loop K cfg p ndp xs)))) (map fst xs)"
proof (induction xs arbitrary: ndp)
  case Nil
  then show ?case by simp
next
  case (Cons x xs)
  obtain s df where x: "x = (s, df)" by (cases x)
  have "\<forall>e \<in> set (snd (signal_step K cfg p ndp (s, df))). ev_symbol e = Some s"
    using signal_step_events [of _ K cfg p ndp s df] by simp
  then have sy: "symbols_of (snd (signal_step K cfg p ndp (s, df))) =
          replicate (length (snd (signal_step K cfg p ndp (s, df)))) s"
    by (rule symbols_of_same)
  show ?case
  proof (cases rule: signal_loop_Cons [of K cfg p ndp s df xs])
    case (raised err evs)
    have "subseq (remdups_adj ([] :: symbol list)) (map fst xs)" by simp
    from block_subseq [OF this, of "length evs" s] sy
    show ?thesis unfolding x raised by simp
  next
    case (continued n evs)
    from block_subseq [OF Cons.IH [of n], of "length evs" s] sy
    show ?thesis unfolding x continued by simp
  qed
qed

lemma signal_loop_returned:
  assumes "fst (signal_loop K cfg p ndp xs) = Returned" and "(s, df) \<in> set xs" and "df \<noteq> []"
  shows "Ev_generate_signals s (df_tail (signal_window cfg) df)
           \<in> set (snd (signal_loop K cfg p ndp xs)) \<and>
         (trained K p \<longrightarrow>
            Ev_predict s (df_tail (prediction_window cfg) df)
              \<in> set (snd (signal_loop K cfg p ndp xs)))"
  using assms
proof (induction xs arbitrary: ndp)
  case Nil
  then show ?case by simp
next
  case (Cons x xs)
  obtain s' df' where x: "x = (s', df')" by (cases x)
  show ?case
  proof (cases rule: signal_loop_Cons [of K cfg p ndp s' df' xs])
    case (raised err evs)
    with Cons.prems(1) show ?thesis unfolding x by simp
  next
    case (continued n evs)
    from Cons.prems(1) have r: "fst (signal_loop K cfg p n xs) = Returned"
      unfolding x continued by simp
    from Cons.prems(2) have "(s, df) = (s', df') \<or> (s, df) \<in> set xs" by (auto simp: x)
    then show ?thesis
    proof
      assume "(s, df) = (s', df')"
      then have "Ev_generate_signals s (df_tail (signal_window cfg) df) \<in> set evs \<and>
        (trained K p \<longrightarrow> Ev_predict s (df_tail (prediction_window cfg) df) \<in> set evs)"
        using signal_step_generate [of s "df_tail (signal_window cfg) df" K cfg p ndp s' df']
          signal_step_predict [of s "df_tail (prediction_window cfg) df" K cfg p ndp s' df']
          continued(1) Cons.prems(3) by simp
      then show ?thesis unfolding x continued by simp
    next
      assume "(s, df) \<in> set xs"
      from Cons.IH [OF r this Cons.prems(3)] show ?thesis unfolding x continued by simp
    qed
  qed
qed

lemma signal_step_empty:
  "signal_step K cfg p ndp (s, []) = (Inr ndp, [Ev_log Warning (Msg_cannot_generate s)])"
  by (simp add: signal_step_def)

lemma signal_loop_all_empty:
  assumes "\<forall>(s, df) \<in> set xs. df = []"
  shows "fst (signal_loop K cfg p ndp xs) = Returned"
  using assms
proof (induction xs arbitrary: ndp)
  case Nil
  then show ?case by simp
next
  case (Cons x xs)
  obtain s df where x: "x = (s, df)" by (cases x)
  with Cons.prems have e: "df = []" by simp
  from Cons.prems have "\<forall>(s, df) \<in> set xs. df = []" by simp
  from Cons.IH [OF this, of ndp] show ?case
    unfolding x e by (cases "signal_loop K cfg p ndp xs") (simp add: signal_step_empty)
qed

subsection \<open>The sequence of events of a run\<close>

lemma run_cases:
  obtains (no_data) "historical_data K cfg = []"
      "run_algo_prototype K cfg =
         (Returned,
          [Ev_log Info Msg_starting,
           Ev_log Info (Msg_fetching (STOCK_SYMBOLS cfg) (BACKTEST_DURATION_MONTHS cfg)),
           Ev_log Error Msg_no_historical_data])"
  | (data) p accs evs1 ts ps evs2 res evs4 where "historical_data K cfg \<noteq> []"
      "train_loop K cfg (historical_data K cfg) (new_predictor K, []) = ((p, accs), evs1)"
      "backtest_loop K (historical_data K cfg) ([], []) = ((ts, ps), evs2)"
      "signal_loop K cfg p None (historical_data K cfg) = (res, evs4)"
      "run_algo_prototype K cfg =
         (res,
          [Ev_log Info Msg_starting,
           Ev_log Info (Msg_fetching (STOCK_SYMBOLS cfg) (BACKTEST_DURATION_MONTHS cfg)),
           Ev_log Info Msg_preparing] @ evs1 @ [Ev_log Info (Msg_accuracies accs)] @
          evs2 @ deliver_to_sheets ts ps @ [Ev_log Info Msg_generating_current] @ evs4 @
          (case res of Returned \<Rightarrow> [Ev_log Info Msg_finished] | Raised e \<Rightarrow> []))"
proof (cases "historical_data K cfg = []")
  case True
  then show ?thesis using no_data
    by (simp add: run_algo_prototype_def process_historical_data_def)
next
  case False
  obtain p accs evs1 where a:
    "train_loop K cfg (historical_data K cfg) (new_predictor K, []) = ((p, accs), evs1)"
    by (metis surj_pair)
  obtain ts ps evs2 where b:
    "backtest_loop K (historical_data K cfg) ([], []) = ((ts, ps), evs2)"
    by (metis surj_pair)
  obtain res evs4 where c: "signal_loop K cfg p None (historical_data K cfg) = (res, evs4)"
    by (metis surj_pair)
  show ?thesis
    using False a b c
    by (intro data [OF False a b c]) (simp add: run_algo_prototype_def process_historical_data_def)
qed

lemma is_processing_call: "is_processing e \<Longrightarrow> is_call e"
  by (cases e) auto

lemma early_call_processing: "is_call e \<Longrightarrow> stage_of e \<le> 3 \<Longrightarrow> is_processing e"
  by (cases e) auto

lemma filter_stage:
  assumes "\<forall>e \<in> set evs. stage_of e = j"
  shows "filter (\<lambda>e. stage_of e = k) evs = (if k = j then evs else [])"
  using assms by (induction evs) auto

lemma symbols_of_filter_none:
  assumes "\<forall>e \<in> set evs. ev_symbol e = None"
  shows "symbols_of (filter P evs) = []"
  using assms by (intro symbols_of_none) simp

lemma sorted_same_stage:
  assumes "\<forall>e \<in> set evs. stage_of e = j"
  shows "sorted (map stage_of evs)"
  using assms by (induction evs) auto

lemma symbols_of_Cons_none [simp]: "ev_symbol e = None \<Longrightarrow> symbols_of (e # evs) = symbols_of evs"
  by (simp add: symbols_of_def List.map_filter_def)

lemma df_tail_last_rows:
  "suffix (df_tail n df) df \<and> length (df_tail n df) = min n (length df)"
  by (auto simp: df_tail_def suffix_drop)

lemma distinct_keys_same:
  assumes "distinct (map fst xs)" and "(s, a) \<in> set xs" and "(s, b) \<in> set xs"
  shows "a = b"
  using assms by (meson eq_key_imp_eq_value)

lemma processing_stage: "is_processing e \<Longrightarrow> stage_of e \<le> 3"
  by (cases e) auto

subsection \<open>The backtest engine of the specification\<close>

lemma backtest_bar_capital:
  "capital (backtest_bar symb st r) - sum_list (map realized_pnl (closed_trades (backtest_bar symb st r)))
     = capital st - sum_list (map realized_pnl (closed_trades st))"
  by (simp add: backtest_bar_def Let_def split: option.splits)

lemma foldl_backtest_capital:
  "capital (foldl (backtest_bar symb) st rows)
     - sum_list (map realized_pnl (closed_trades (foldl (backtest_bar symb) st rows)))
     = capital st - sum_list (map realized_pnl (closed_trades st))"
proof (induction rows arbitrary: st)
  case Nil
  then show ?case by simp
next
  case (Cons r rows)
  from Cons.IH [of "backtest_bar symb st r"] backtest_bar_capital [of symb st r]
  show ?case by simp
qed

lemma simulate_capital:
  "capital (simulate symb init rows) =
     init + sum_list (map realized_pnl (closed_trades (simulate symb init rows)))"
  using foldl_backtest_capital
    [of symb "\<lparr>capital = init, open_position = None, closed_trades = []\<rparr>" rows]
  by (simp add: simulate_def)

lemma spec_run_backtest_invariant:
  assumes "spec_run_backtest gen init symb df = Some r"
  shows "final_capital r = initial_capital r + total_pnl r \<and>
         (open_position (simulate symb init (gen df)) = None \<longrightarrow>
            total_pnl r = sum_list (map realized_pnl (trade_log r)))"
proof -
  from assms have r: "r = \<lparr>initial_capital = init,
      final_capital = capital (simulate symb init (gen df))
        + unrealized_pnl (simulate symb init (gen df)) (gen df),
      total_pnl = sum_list (map realized_pnl (closed_trades (simulate symb init (gen df))))
        + unrealized_pnl (simulate symb init (gen df)) (gen df),
      trade_log = closed_trades (simulate symb init (gen df))\<rparr>"
    by (simp add: spec_run_backtest_def Let_def split: if_splits)
  have "open_position (simulate symb init (gen df)) = None \<longrightarrow>
      unrealized_pnl (simulate symb init (gen df)) (gen df) = 0"
    by (simp add: unrealized_pnl_def)
  with simulate_capital [of symb init "gen df"] show ?thesis by (simp add: r)
qed

lemma update_entries:
  assumes "(a, b) \<in> set (AList.update k v al)"
  shows "(a, b) = (k, v) \<or> (a, b) \<in> set al"
  using assms by (induction al) (auto split: if_splits)

lemma backtest_step_summary:
  assumes "(s, e) \<in> set (snd (fst (backtest_step K (s', df) (ts, ps))))"
  shows "(s, e) \<in> set ps \<or>
         (\<exists>r. s = s' \<and> df \<noteq> [] \<and> run_backtest K s df = Some r \<and>
              e = \<lparr>pnl_initial_capital = initial_capital r, pnl_final_capital = final_capital r,
                   pnl_total_pnl = total_pnl r\<rparr>)"
proof (cases "df = []")
  case True
  with assms show ?thesis by (simp add: backtest_step_def)
next
  case False
  show ?thesis
  proof (cases "run_backtest K s' df")
    case None
    with assms False show ?thesis by (simp add: backtest_step_def df_copy_def)
  next
    case (Some r)
    with assms False have "(s, e) \<in> set (AList.update s'
        \<lparr>pnl_initial_capital = initial_capital r, pnl_final_capital = final_capital r,
         pnl_total_pnl = total_pnl r\<rparr> ps)"
      by (simp add: backtest_step_def df_copy_def)
    from update_entries [OF this] Some False show ?thesis by auto
  qed
qed

lemma backtest_loop_summary:
  assumes "(s, e) \<in> set (snd (fst (backtest_loop K xs (ts, ps))))"
  shows "(s, e) \<in> set ps \<or>
         (\<exists>df r. (s, df) \<in> set xs \<and> df \<noteq> [] \<and> run_backtest K s df = Some r \<and>
              e = \<lparr>pnl_initial_capital = initial_capital r, pnl_final_capital = final_capital r,
                   pnl_total_pnl = total_pnl r\<rparr>)"
  using assms
proof (induction xs arbitrary: ts ps)
  case Nil
  then show ?case by simp
next
  case (Cons x xs)
  obtain s' df where x: "x = (s', df)" by (cases x)
  obtain ts' ps' evs where t: "backtest_step K (s', df) (ts, ps) = ((ts', ps'), evs)"
    by (metis surj_pair)
  note l = backtest_loop_Cons [OF t, of xs]
  from Cons.prems have "(s, e) \<in> set (snd (fst (backtest_loop K xs (ts', ps'))))"
    unfolding x l by simp
  from Cons.IH [OF this] show ?case
  proof
    assume "(s, e) \<in> set ps'"
    with t have "(s, e) \<in> set (snd (fst (backtest_step K (s', df) (ts, ps))))" by simp
    from backtest_step_summary [OF this] show ?thesis unfolding x by auto
  next
    assume "\<exists>df r. (s, df) \<in> set xs \<and> df \<noteq> [] \<and> run_backtest K s df = Some r \<and>
              e = \<lparr>pnl_initial_capital = initial_capital r, pnl_final_capital = final_capital r,
                   pnl_total_pnl = total_pnl r\<rparr>"
    then show ?thesis unfolding x by auto
  qed
qed

subsection \<open>The store\<close>

lemma extends_refl: "extends h h"
  by (simp add: extends_def)

lemma extends_trans:
  assumes "extends h1 h2" and "extends h2 h3"
  shows "extends h1 h3"
  unfolding extends_def
proof (intro conjI allI impI ballI)
  show "next_ref h1 \<le> next_ref h3" using assms by (simp add: extends_def)
next
  fix r assume "r < next_ref h1"
  with assms show "tables h3 r = tables h1 r" by (simp add: extends_def)
next
  fix r assume "r \<in> set (handed h3)"
  with assms(2) have "r \<in> set (handed h2) \<or> next_ref h2 \<le> r" by (simp add: extends_def)
  with assms(1) show "r \<in> set (handed h1) \<or> next_ref h1 \<le> r"
    by (auto simp: extends_def)
qed

lemma new_table_simps [simp]:
  "fst (new_table rows h) = next_ref h"
  "tables (snd (new_table rows h)) r = (if r = next_ref h then rows else tables h r)"
  "next_ref (snd (new_table rows h)) = Suc (next_ref h)"
  "handed (snd (new_table rows h)) = handed h"
  by (simp_all add: new_table_def)

lemma hand_over_simps [simp]:
  "tables (hand_over eff a h) r = (if r = a then eff (tables h a) else tables h r)"
  "next_ref (hand_over eff a h) = next_ref h"
  "handed (hand_over eff a h) = handed h @ [a]"
  by (simp_all add: hand_over_def)

lemma extends_new_table: "extends h (snd (new_table rows h))"
  by (simp add: extends_def)

lemma extends_hand_over:
  assumes "extends h0 h" and "next_ref h0 \<le> a"
  shows "extends h0 (hand_over eff a h)"
  using assms by (auto simp: extends_def)

lemma extends_new_table_after:
  assumes "extends h0 h"
  shows "extends h0 (snd (new_table rows h))"
  using assms extends_new_table by (rule extends_trans)

lemma train_step_h_refines:
  assumes "a < next_ref h"
  shows "fst (train_step_h K E cfg (s, a) st h) = train_step K cfg (s, tables h a) st \<and>
         extends h (snd (train_step_h K E cfg (s, a) st h))"
proof (cases "tables h a = []")
  case True
  then show ?thesis
    by (cases st) (simp add: train_step_h_def train_step_def extends_refl)
next
  case False
  have e: "extends h (hand_over (eff_prepare_data_for_ml E) (next_ref h)
                        (snd (new_table (tables h a) h)))"
    by (intro extends_hand_over extends_new_table) simp
  show ?thesis
    using False e
    by (cases st)
      (simp add: train_step_h_def train_step_def copy_table_def df_copy_def Let_def
        split_beta split: prod.splits)
qed

lemma backtest_step_h_refines:
  assumes "a < next_ref h"
  shows "fst (backtest_step_h K E (s, a) st h) = backtest_step K (s, tables h a) st \<and>
         extends h (snd (backtest_step_h K E (s, a) st h))"
proof (cases "tables h a = []")
  case True
  then show ?thesis
    by (cases st) (simp add: backtest_step_h_def backtest_step_def extends_refl)
next
  case False
  have e: "extends h (hand_over (eff_run_backtest E s) (next_ref h)
                        (snd (new_table (tables h a) h)))"
    by (intro extends_hand_over extends_new_table) simp
  show ?thesis
    using False e
    by (cases st)
      (simp add: backtest_step_h_def backtest_step_def copy_table_def df_copy_def Let_def
        split_beta split: prod.splits option.splits)
qed

lemma signal_step_h_result:
  assumes "a < next_ref h"
  shows "fst (signal_step_h K E cfg p ndp (s, a) h) = signal_step K cfg p ndp (s, tables h a)"
proof (cases "tables h a = []")
  case True
  then show ?thesis by (simp add: signal_step_h_def signal_step_def)
next
  case False
  have w: "df_tail (signal_window cfg) (tables h a) \<noteq> []"
    using False signal_window_pos [of cfg] by simp
  have pw: "df_tail (prediction_window cfg) (tables h a) \<noteq> []"
    using False prediction_window_pos [of cfg] by simp
  from assms have ne: "a \<noteq> next_ref h" "a \<noteq> Suc (next_ref h)" by simp_all
  show ?thesis
    using False w pw ne
    by (simp add: signal_step_h_def signal_step_def tail_table_def copy_table_def df_copy_def
        recompute_prediction_def Let_def split_beta cong: outcome.case_cong)
qed

lemma signal_step_h_extends:
  assumes "a < next_ref h"
  shows "extends h (snd (signal_step_h K E cfg p ndp (s, a) h))"
proof (cases "tables h a = []")
  case True
  then show ?thesis by (simp add: signal_step_h_def extends_refl)
next
  case False
  have w: "df_tail (signal_window cfg) (tables h a) \<noteq> []"
    using False signal_window_pos [of cfg] by simp
  define h1 where "h1 = snd (tail_table (signal_window cfg) a h)"
  define h2 where "h2 = snd (copy_table (next_ref h) h1)"
  define h3 where "h3 = hand_over (eff_generate_signals E) (Suc (next_ref h)) h2"
  define h4 where "h4 = snd (tail_table (prediction_window cfg) a h3)"
  define h5 where "h5 = snd (copy_table (Suc (Suc (next_ref h))) h4)"
  define h6 where "h6 = hand_over (eff_predict_next_day_movement E p) (Suc (Suc (Suc (next_ref h)))) h5"
  have e1: "extends h h1" unfolding h1_def tail_table_def by (rule extends_new_table)
  have e2: "extends h h2" unfolding h2_def copy_table_def using e1 by (rule extends_new_table_after)
  have e3: "extends h h3" unfolding h3_def using e2 by (rule extends_hand_over) simp
  have e4: "extends h h4" unfolding h4_def tail_table_def using e3 by (rule extends_new_table_after)
  have e5: "extends h h5" unfolding h5_def copy_table_def using e4 by (rule extends_new_table_after)
  have e6: "extends h h6" unfolding h6_def using e5 by (rule extends_hand_over) simp
  have "snd (signal_step_h K E cfg p ndp (s, a) h) = h5 \<or>
        snd (signal_step_h K E cfg p ndp (s, a) h) = h6"
    using False w
    by (simp add: signal_step_h_def tail_table_def copy_table_def df_copy_def Let_def split_beta
        h1_def h2_def h3_def h4_def h5_def h6_def)
  with e5 e6 show ?thesis by auto
qed

lemma contents_extends:
  assumes "extends h h'" and "allocated h hist"
  shows "contents h' hist = contents h hist"
  using assms by (auto simp: contents_def extends_def allocated_def)

lemma allocated_extends:
  assumes "extends h h'" and "allocated h hist"
  shows "allocated h' hist"
  using assms by (fastforce simp: extends_def allocated_def)

lemma allocated_Cons: "allocated h ((s, a) # xs) \<longleftrightarrow> a < next_ref h \<and> allocated h xs"
  by (simp add: allocated_def)

lemma contents_Cons: "contents h ((s, a) # xs) = (s, tables h a) # contents h xs"
  by (simp add: contents_def)

lemma train_loop_h_refines:
  assumes "allocated h hist"
  shows "fst (train_loop_h K E cfg hist st h) = train_loop K cfg (contents h hist) st \<and>
         extends h (snd (train_loop_h K E cfg hist st h))"
  using assms
proof (induction hist arbitrary: st h)
  case Nil
  then show ?case by (simp add: contents_def extends_refl)
next
  case (Cons x xs)
  obtain s a where x: "x = (s, a)" by (cases x)
  from Cons.prems have a: "a < next_ref h" and al: "allocated h xs"
    by (simp_all add: x allocated_Cons)
  obtain st' evs h' where sh: "train_step_h K E cfg (s, a) st h = ((st', evs), h')"
    by (metis surj_pair)
  from train_step_h_refines [OF a, of K E cfg s st] sh
  have sv: "train_step K cfg (s, tables h a) st = (st', evs)" and e: "extends h h'" by simp_all
  obtain st'' evs' h'' where lh: "train_loop_h K E cfg xs st' h' = ((st'', evs'), h'')"
    by (metis surj_pair)
  from Cons.IH [OF allocated_extends [OF e al], of st'] lh contents_extends [OF e al]
  have lv: "train_loop K cfg (contents h xs) st' = (st'', evs')" and e': "extends h' h''"
    by simp_all
  have "train_loop_h K E cfg (x # xs) st h = ((st'', evs @ evs'), h'')"
    by (simp add: x sh lh)
  moreover have "train_loop K cfg (contents h (x # xs)) st = (st'', evs @ evs')"
    unfolding x contents_Cons by (simp add: sv lv)
  ultimately show ?case using extends_trans [OF e e'] by simp
qed

lemma backtest_loop_h_refines:
  assumes "allocated h hist"
  shows "fst (backtest_loop_h K E hist st h) = backtest_loop K (contents h hist) st \<and>
         extends h (snd (backtest_loop_h K E hist st h))"
  using assms
proof (induction hist arbitrary: st h)
  case Nil
  then show ?case by (simp add: contents_def extends_refl)
next
  case (Cons x xs)
  obtain s a where x: "x = (s, a)" by (cases x)
  from Cons.prems have a: "a < next_ref h" and al: "allocated h xs"
    by (simp_all add: x allocated_Cons)
  obtain st' evs h' where sh: "backtest_step_h K E (s, a) st h = ((st', evs), h')"
    by (metis surj_pair)
  from backtest_step_h_refines [OF a, of K E s st] sh
  have sv: "backtest_step K (s, tables h a) st = (st', evs)" and e: "extends h h'" by simp_all
  obtain st'' evs' h'' where lh: "backtest_loop_h K E xs st' h' = ((st'', evs'), h'')"
    by (metis surj_pair)
  from Cons.IH [OF allocated_extends [OF e al], of st'] lh contents_extends [OF e al]
  have lv: "backtest_loop K (contents h xs) st' = (st'', evs')" and e': "extends h' h''"
    by simp_all
  have "backtest_loop_h K E (x # xs) st h = ((st'', evs @ evs'), h'')"
    by (simp add: x sh lh)
  moreover have "backtest_loop K (contents h (x # xs)) st = (st'', evs @ evs')"
    unfolding x contents_Cons by (simp add: sv lv)
  ultimately show ?case using extends_trans [OF e e'] by simp
qed

lemma signal_loop_h_refines:
  assumes "allocated h hist"
  shows "fst (signal_loop_h K E cfg p ndp hist h) = signal_loop K cfg p ndp (contents h hist) \<and>
         extends h (snd (signal_loop_h K E cfg p ndp hist h))"
  using assms
proof (induction hist arbitrary: ndp h)
  case Nil
  then show ?case by (simp add: contents_def extends_refl)
next
  case (Cons x xs)
  obtain s a where x: "x = (s, a)" by (cases x)
  from Cons.prems have a: "a < next_ref h" and al: "allocated h xs"
    by (simp_all add: x allocated_Cons)
  obtain r evs h' where sh: "signal_step_h K E cfg p ndp (s, a) h = ((r, evs), h')"
    by (metis surj_pair)
  from signal_step_h_result [OF a, of K E cfg p ndp s] signal_step_h_extends [OF a, of K E cfg p ndp s] sh
  have sv: "signal_step K cfg p ndp (s, tables h a) = (r, evs)" and e: "extends h h'" by simp_all
  show ?case
  proof (cases r)
    case (Inl err)
    have "signal_loop_h K E cfg p ndp (x # xs) h = ((Raised err, evs), h')"
      by (simp add: x sh Inl)
    moreover have "signal_loop K cfg p ndp (contents h (x # xs)) = (Raised err, evs)"
      unfolding x contents_Cons by (simp add: sv Inl)
    ultimately show ?thesis using e by simp
  next
    case (Inr n)
    obtain res evs' h'' where lh: "signal_loop_h K E cfg p n xs h' = ((res, evs'), h'')"
      by (metis surj_pair)
    from Cons.IH [OF allocated_extends [OF e al], of n] lh contents_extends [OF e al]
    have lv: "signal_loop K cfg p n (contents h xs) = (res, evs')" and e': "extends h' h''"
      by simp_all
    have "signal_loop_h K E cfg p ndp (x # xs) h = ((res, evs @ evs'), h'')"
      by (simp add: x sh Inr lh)
    moreover have "signal_loop K cfg p ndp (contents h (x # xs)) = (res, evs @ evs')"
      unfolding x contents_Cons by (simp add: sv Inr lv)
    ultimately show ?thesis using extends_trans [OF e e'] by simp
  qed
qed

lemma process_historical_data_h_refines:
  assumes "allocated h hist"
  shows "fst (process_historical_data_h K E cfg hist h) =
           process_historical_data K cfg (contents h hist) \<and>
         extends h (snd (process_historical_data_h K E cfg hist h))"
proof (cases "hist = []")
  case True
  then show ?thesis
    by (simp add: process_historical_data_h_def process_historical_data_def contents_def
        extends_refl)
next
  case False
  then have ne: "contents h hist \<noteq> []" by (simp add: contents_def)
  obtain p accs evs1 h1 where t: "train_loop_h K E cfg hist (new_predictor K, []) h = (((p, accs), evs1), h1)"
    by (metis surj_pair)
  from train_loop_h_refines [OF assms, of K E cfg "(new_predictor K, [])"] t
  have tv: "train_loop K cfg (contents h hist) (new_predictor K, []) = ((p, accs), evs1)"
    and e1: "extends h h1" by simp_all
  obtain ts ps evs2 h2 where b: "backtest_loop_h K E hist ([], []) h1 = (((ts, ps), evs2), h2)"
    by (metis surj_pair)
  from backtest_loop_h_refines [OF allocated_extends [OF e1 assms], of K E "([], [])"] b
    contents_extends [OF e1 assms]
  have bv: "backtest_loop K (contents h hist) ([], []) = ((ts, ps), evs2)"
    and e2: "extends h1 h2" by simp_all
  note e12 = extends_trans [OF e1 e2]
  obtain res evs4 h3 where g: "signal_loop_h K E cfg p None hist h2 = ((res, evs4), h3)"
    by (metis surj_pair)
  from signal_loop_h_refines [OF allocated_extends [OF e12 assms], of K E cfg p None] g
    contents_extends [OF e12 assms]
  have gv: "signal_loop K cfg p None (contents h hist) = (res, evs4)"
    and e3: "extends h2 h3" by simp_all
  show ?thesis
    using False ne extends_trans [OF e12 e3]
    by (simp add: process_historical_data_h_def process_historical_data_def t tv b bv g gv)
qed

subsection \<open>The alert condition\<close>

text \<open>
  Claim C8. For a symbol that the current-signal stage processes (its series is not empty),
  one iteration of the loop sends an alert exactly when the current signal is not HOLD
  (not \<open>0\<close>) or the variable \<^verbatim>\<open>next_day_pred\<close> holds a value other than the sentinel \<open>-1\<close>;
  otherwise no message is sent. While the variable is unbound there is no prediction value
  to test, and no message is sent either.
\<close>

theorem alert_dispatch_condition:
  assumes "df \<noteq> []"
  shows "(\<exists>msg. Ev_send_telegram s msg \<in> set (snd (signal_step K cfg p ndp (s, df)))) \<longleftrightarrow>
         (fst (fst (recompute_signal K s df (df_copy (df_tail (signal_window cfg) df)))) \<noteq> 0 \<or>
          (\<exists>v. fst (fst (recompute_prediction K cfg p s df ndp)) = Some v \<and> v \<noteq> - 1))"
proof -
  obtain c cl d evs1 where r1:
    "recompute_signal K s df (df_copy (df_tail (signal_window cfg) df)) = ((c, cl, d), evs1)"
    by (metis prod_cases3 surj_pair)
  obtain n t evs2 where r2: "recompute_prediction K cfg p s df ndp = ((n, t), evs2)"
    by (metis surj_pair)
  have e1: "\<And>msg. Ev_send_telegram s msg \<notin> set evs1"
    using r1 by (auto simp: recompute_signal_def Let_def split: if_splits)
  have e2: "\<And>msg. Ev_send_telegram s msg \<notin> set evs2"
    using r2 by (auto simp: recompute_prediction_def Let_def split: if_splits)
  have w: "df_copy (df_tail (signal_window cfg) df) \<noteq> []"
    using assms signal_window_pos [of cfg] by (simp add: df_copy_def)
  show ?thesis
    using assms w e1 e2
    by (auto simp: signal_step_def r1 r2 alert_step_def Let_def split: option.splits)
qed

theorem alert_dispatch_condition_witness:
  "rising \<noteq> [] \<and>
   ((\<exists>msg. Ev_send_telegram ''A'' msg \<in>
       set (snd (signal_step (stub_components small_cfg 1 []) small_cfg None (Some (- 1))
                   (''A'', rising)))) \<longleftrightarrow>
    (fst (fst (recompute_signal (stub_components small_cfg 1 []) ''A'' rising
                 (df_copy (df_tail (signal_window small_cfg) rising)))) \<noteq> 0 \<or>
     (\<exists>v. fst (fst (recompute_prediction (stub_components small_cfg 1 []) small_cfg None ''A''
                      rising (Some (- 1)))) = Some v \<and> v \<noteq> - 1)))"
proof -
  have ne: "rising \<noteq> []" by (simp add: rising_def)
  show ?thesis
    using ne alert_dispatch_condition [OF ne, of "''A''" "stub_components small_cfg 1 []"
        small_cfg None "Some (- 1)"]
    by blast
qed

subsection \<open>The unbound prediction variable\<close>

text \<open>
  Claim C1 says that no input makes the per-symbol loop raise. A single symbol whose series
  is too short to train on (the predictor stays untrained) and too short for a defined
  signal (the signal falls back to HOLD) makes line 158 read \<^verbatim>\<open>next_day_pred\<close> before any
  assignment: the run ends with \<^verbatim>\<open>UnboundLocalError\<close>.
\<close>

theorem unbound_next_day_pred_raises:
  "fst (run_algo_prototype
          (stub_components small_cfg 1
             [(''A'', [mk_bar ''2024-01-01'' 10, mk_bar ''2024-01-02'' 11])])
          small_cfg) = Raised UnboundLocalError"
  by (simp add: orchestrator_defs stub_defs Let_def)

subsection \<open>The fallback to HOLD\<close>

text \<open>
  Claim C4 says that a symbol whose recomputed latest row is missing or has an undefined
  field gets HOLD and the prediction \<open>-1\<close>. The prediction is computed from its own window
  by the predictor and does not look at the signal table: here the three-bar series is too
  short for a defined signal, the predictor has been trained on it, and the prediction is
  \<open>1\<close>.
\<close>

theorem null_row_prediction_counterexample:
  "isnull_any (last (generate_signals (stub_components small_cfg 1 [(''A'', rising)])
                       (df_copy (df_tail (signal_window small_cfg) rising)))) \<and>
   fst (fst (recompute_prediction (stub_components small_cfg 1 [(''A'', rising)]) small_cfg
               (fst (fst (train_loop (stub_components small_cfg 1 [(''A'', rising)]) small_cfg
                            [(''A'', rising)]
                            (new_predictor (stub_components small_cfg 1 [(''A'', rising)]), []))))
               ''A'' rising None)) = Some 1"
  by (simp add: orchestrator_defs stub_defs Let_def)

text \<open>
  Claim C4, amended. For a symbol with a non-empty series whose recomputed latest row is
  missing or contains an undefined field (an undefined signal included), the recompute yields
  HOLD (signal \<open>0\<close>), reported with the close and the date of the symbol's last bar. The
  prediction is not tied to this fallback: with a trained predictor it is what
  \<^verbatim>\<open>predict_next_day_movement\<close> returns on the prediction window, with an untrained one
  the variable is left as it was. A series shorter than the signal window is handed whole to
  the signal generator.
\<close>

theorem null_row_falls_back_to_hold:
  assumes "df \<noteq> []"
    and "generate_signals K (df_copy (df_tail (signal_window cfg) df)) = [] \<or>
         isnull_any (last (generate_signals K (df_copy (df_tail (signal_window cfg) df))))"
  shows "fst (recompute_signal K s df (df_copy (df_tail (signal_window cfg) df))) =
           (0, Close (last df), Date (last df)) \<and>
         Ev_log Info (Msg_latest_signal s (Date (last df)) ''HOLD'' (Close (last df)))
           \<in> set (snd (signal_step K cfg p ndp (s, df))) \<and>
         fst (fst (recompute_prediction K cfg p s df ndp)) =
           (if trained K p
            then Some (predict_next_day_movement K p
                         (df_copy (df_tail (prediction_window cfg) df)) (FEATURES cfg))
            else ndp) \<and>
         (length df < signal_window cfg \<longrightarrow> df_copy (df_tail (signal_window cfg) df) = df)"
proof -
  have sg: "fst (recompute_signal K s df (df_copy (df_tail (signal_window cfg) df))) =
           (0, Close (last df), Date (last df))"
    using assms by (auto simp: recompute_signal_def Let_def)
  have w: "df_copy (df_tail (signal_window cfg) df) \<noteq> []"
    using assms(1) signal_window_pos [of cfg] by (simp add: df_copy_def)
  have lg: "Ev_log Info (Msg_latest_signal s (Date (last df)) ''HOLD'' (Close (last df)))
           \<in> set (snd (signal_step K cfg p ndp (s, df)))"
    using assms(1) w sg
    by (auto simp: signal_step_def signal_type_of_def Let_def split: prod.splits)
  have pw: "df_copy (df_tail (prediction_window cfg) df) \<noteq> []"
    using assms(1) prediction_window_pos [of cfg] by (simp add: df_copy_def)
  have pr: "fst (fst (recompute_prediction K cfg p s df ndp)) =
           (if trained K p
            then Some (predict_next_day_movement K p
                         (df_copy (df_tail (prediction_window cfg) df)) (FEATURES cfg))
            else ndp)"
    using pw by (simp add: recompute_prediction_def Let_def)
  have wh: "length df < signal_window cfg \<longrightarrow> df_copy (df_tail (signal_window cfg) df) = df"
    by (simp add: df_copy_def df_tail_def)
  from sg lg pr wh show ?thesis by blast
qed

theorem null_row_falls_back_to_hold_witness:
  "rising \<noteq> [] \<and>
   (generate_signals (stub_components small_cfg 1 []) (df_copy (df_tail (signal_window small_cfg) rising)) = [] \<or>
    isnull_any (last (generate_signals (stub_components small_cfg 1 [])
                        (df_copy (df_tail (signal_window small_cfg) rising))))) \<and>
   fst (recompute_signal (stub_components small_cfg 1 []) ''A'' rising
          (df_copy (df_tail (signal_window small_cfg) rising))) = (0, 12, ''2024-01-03'')"
proof -
  have ne: "rising \<noteq> []" by (simp add: rising_def)
  have nl: "generate_signals (stub_components small_cfg 1 []) (df_copy (df_tail (signal_window small_cfg) rising)) = [] \<or>
    isnull_any (last (generate_signals (stub_components small_cfg 1 [])
                        (df_copy (df_tail (signal_window small_cfg) rising))))"
    by (simp add: orchestrator_defs stub_defs Let_def)
  have "Close (last rising) = 12" "Date (last rising) = ''2024-01-03''"
    by (simp_all add: stub_defs)
  with null_row_falls_back_to_hold [OF ne nl, where s = "''A''" and p = None and ndp = None] ne nl
  show ?thesis by simp
qed

subsection \<open>One predictor for all symbols\<close>

text \<open>
  Claim C2 says that every symbol has a model of its own, trained once. The run has a single
  \<^verbatim>\<open>MLPredictor\<close> (line 42) and calls \<^verbatim>\<open>train_model\<close> on it for every symbol with usable
  data (line 62). With the two symbols \<open>A\<close> (rising) and \<open>B\<close> (falling) the predictor is
  trained twice and ends fitted on the rows of \<open>B\<close>; the prediction reported for \<open>A\<close> comes
  from that model (\<open>Down/No Change\<close>), while a run with \<open>A\<close> alone reports \<open>Up\<close>.
\<close>

theorem shared_predictor_is_retrained:
  "Ev_train ''A'' [\<lparr>fr_features = [11, 1000], fr_label = 1\<rparr>]
     \<in> set (snd (run_algo_prototype
                   (stub_components small_cfg 1 [(''A'', rising), (''B'', falling)]) small_cfg)) \<and>
   Ev_train ''B'' [\<lparr>fr_features = [9, 1000], fr_label = 0\<rparr>]
     \<in> set (snd (run_algo_prototype
                   (stub_components small_cfg 1 [(''A'', rising), (''B'', falling)]) small_cfg)) \<and>
   fst (fst (train_loop (stub_components small_cfg 1 [(''A'', rising), (''B'', falling)]) small_cfg
               [(''A'', rising), (''B'', falling)]
               (new_predictor (stub_components small_cfg 1 [(''A'', rising), (''B'', falling)]), [])))
     = Some [\<lparr>fr_features = [9, 1000], fr_label = 0\<rparr>] \<and>
   Ev_log Info (Msg_ml_prediction ''A'' ''Down/No Change'')
     \<in> set (snd (run_algo_prototype
                   (stub_components small_cfg 1 [(''A'', rising), (''B'', falling)]) small_cfg)) \<and>
   Ev_log Info (Msg_ml_prediction ''A'' ''Up'')
     \<in> set (snd (run_algo_prototype (stub_components small_cfg 1 [(''A'', rising)]) small_cfg))"
  by (simp add: orchestrator_defs stub_defs Let_def)

subsection \<open>Order of execution\<close>

text \<open>
  Claim C3 says that all stages of one symbol complete before any stage of the next symbol
  begins, so that the events of a symbol form one block of the run. With two symbols the
  run trains on \<open>A\<close>, trains on \<open>B\<close>, backtests \<open>A\<close>, backtests \<open>B\<close>, and only then computes
  the current signals: the events of \<open>A\<close> do not form one block.
\<close>

theorem per_symbol_order_counterexample:
  "\<not> symbol_by_symbol
       (snd (run_algo_prototype
               (stub_components small_cfg 1 [(''A'', rising), (''B'', falling)]) small_cfg))"
  by (simp add: symbol_by_symbol_def symbols_of_def List.map_filter_simps orchestrator_defs
      stub_defs Let_def)

text \<open>
  Claim C3, amended. Execution is sequential per stage: the events of a run are ordered by
  stage (feature preparation and training of all symbols, then the backtests of all
  symbols, then the delivery to the sheets, then the current signals of all symbols), and
  within each stage the symbols are handled one after the other in the order of the
  fetched mapping; with distinct keys the events of a symbol form one block of each stage.
\<close>

theorem stages_in_order:
  "sorted (map stage_of (snd (run_algo_prototype K cfg))) \<and>
   (\<forall>k. subseq (remdups_adj (symbols_of
                   (filter (\<lambda>e. stage_of e = k) (snd (run_algo_prototype K cfg)))))
           (map fst (historical_data K cfg))) \<and>
   (distinct (map fst (historical_data K cfg)) \<longrightarrow>
      (\<forall>k. symbol_by_symbol (filter (\<lambda>e. stage_of e = k) (snd (run_algo_prototype K cfg)))))"
proof -
  have sub: "subseq (remdups_adj (symbols_of
                   (filter (\<lambda>e. stage_of e = k) (snd (run_algo_prototype K cfg)))))
           (map fst (historical_data K cfg))" for k
  proof (cases rule: run_cases [of K cfg])
    case no_data
    then show ?thesis by simp
  next
    case (data p accs evs1 ts ps evs2 res evs4)
    have s1: "\<forall>e \<in> set evs1. stage_of e = 1"
      using train_loop_stage [of _ K cfg "historical_data K cfg" "(new_predictor K, [])"] data(2)
      by simp
    have s2: "\<forall>e \<in> set evs2. stage_of e = 2"
      using backtest_loop_stage [of _ K "historical_data K cfg" "([], [])"] data(3) by simp
    have s4: "\<forall>e \<in> set evs4. stage_of e = 4"
      using signal_loop_stage [of _ K cfg p None "historical_data K cfg"] data(4) by simp
    have s3: "symbols_of (filter (\<lambda>e. stage_of e = j) (deliver_to_sheets ts ps)) = []" for j
      using deliver_events by (intro symbols_of_filter_none) blast
    have y1: "subseq (remdups_adj (symbols_of evs1)) (map fst (historical_data K cfg))"
      using train_loop_symbols [of K cfg "historical_data K cfg" "(new_predictor K, [])"] data(2)
      by simp
    have y2: "subseq (remdups_adj (symbols_of evs2)) (map fst (historical_data K cfg))"
      using backtest_loop_symbols [of K "historical_data K cfg" "([], [])"] data(3) by simp
    have y4: "subseq (remdups_adj (symbols_of evs4)) (map fst (historical_data K cfg))"
      using signal_loop_symbols [of K cfg p None "historical_data K cfg"] data(4) by simp
    have "symbols_of (filter (\<lambda>e. stage_of e = k) (snd (run_algo_prototype K cfg))) =
         (if k = 1 then symbols_of evs1 else if k = 2 then symbols_of evs2
          else if k = 4 then symbols_of evs4 else [])"
      by (cases res) (simp_all add: data(5) filter_stage [OF s1] filter_stage [OF s2]
          filter_stage [OF s4] s3)
    with y1 y2 y4 show ?thesis by simp
  qed
  have srt: "sorted (map stage_of (snd (run_algo_prototype K cfg)))"
  proof (cases rule: run_cases [of K cfg])
    case no_data
    then show ?thesis by simp
  next
    case (data p accs evs1 ts ps evs2 res evs4)
    have s1: "\<forall>e \<in> set evs1. stage_of e = 1"
      using train_loop_stage [of _ K cfg "historical_data K cfg" "(new_predictor K, [])"] data(2)
      by simp
    have s2: "\<forall>e \<in> set evs2. stage_of e = 2"
      using backtest_loop_stage [of _ K "historical_data K cfg" "([], [])"] data(3) by simp
    have s3: "\<forall>e \<in> set (deliver_to_sheets ts ps). stage_of e = 3"
      using deliver_events by blast
    have s4: "\<forall>e \<in> set evs4. stage_of e = 4"
      using signal_loop_stage [of _ K cfg p None "historical_data K cfg"] data(4) by simp
    show ?thesis
      using s1 s2 s3 s4 sorted_same_stage [OF s1] sorted_same_stage [OF s2]
        sorted_same_stage [OF s3] sorted_same_stage [OF s4]
      by (cases res) (auto simp: data(5) sorted_append)
  qed
  have "symbol_by_symbol (filter (\<lambda>e. stage_of e = k) (snd (run_algo_prototype K cfg)))"
    if "distinct (map fst (historical_data K cfg))" for k
    using sub [of k] that subseqs_distinctD [of _ "map fst (historical_data K cfg)"]
    by (simp add: symbol_by_symbol_def)
  with sub srt show ?thesis by blast
qed

theorem stages_in_order_witness:
  "distinct (map fst (historical_data
                        (stub_components small_cfg 1 [(''A'', rising), (''B'', falling)])
                        small_cfg)) \<and>
   (\<forall>k. symbol_by_symbol
          (filter (\<lambda>e. stage_of e = k)
             (snd (run_algo_prototype
                     (stub_components small_cfg 1 [(''A'', rising), (''B'', falling)])
                     small_cfg))))"
  using stages_in_order [of "stub_components small_cfg 1 [(''A'', rising), (''B'', falling)]"
      small_cfg]
  by (simp add: historical_data_def stub_components_def)

subsection \<open>The trailing windows\<close>

text \<open>
  Claim C5. Whenever the run recomputes the current signal of a symbol, the table handed to
  the signal generator is the last \<open>max(RSI, SHORT, LONG) + 1\<close> bars of that symbol's
  non-empty series, and whenever it asks for a prediction, the table handed to the predictor
  is the last \<open>max(RSI, 26) + 2\<close> bars; a series shorter than the window is handed over
  whole (the window is a suffix of the series of length \<open>min n (length df)\<close>). In a run
  that returns, every symbol with a non-empty series gets its signal recomputed, and its
  prediction too when the predictor is trained.
\<close>

theorem recompute_windows:
  "(Ev_generate_signals s fr \<in> set (snd (run_algo_prototype K cfg)) \<longrightarrow>
      (\<exists>df. (s, df) \<in> set (historical_data K cfg) \<and> df \<noteq> [] \<and>
            fr = df_tail (max (max (RSI_PERIOD cfg) (SHORT_MA_PERIOD cfg)) (LONG_MA_PERIOD cfg) + 1) df)) \<and>
   (Ev_predict s fr \<in> set (snd (run_algo_prototype K cfg)) \<longrightarrow>
      (\<exists>df. (s, df) \<in> set (historical_data K cfg) \<and> df \<noteq> [] \<and>
            fr = df_tail (max (RSI_PERIOD cfg) 26 + 2) df)) \<and>
   (fst (run_algo_prototype K cfg) = Returned \<and> (s, df) \<in> set (historical_data K cfg) \<and> df \<noteq> [] \<longrightarrow>
      Ev_generate_signals s
        (df_tail (max (max (RSI_PERIOD cfg) (SHORT_MA_PERIOD cfg)) (LONG_MA_PERIOD cfg) + 1) df)
        \<in> set (snd (run_algo_prototype K cfg)) \<and>
      (trained K (fst (fst (train_loop K cfg (historical_data K cfg) (new_predictor K, [])))) \<longrightarrow>
         Ev_predict s (df_tail (max (RSI_PERIOD cfg) 26 + 2) df)
           \<in> set (snd (run_algo_prototype K cfg)))) \<and>
   (suffix (df_tail n df) df \<and> length (df_tail n df) = min n (length df))"
proof (cases rule: run_cases [of K cfg])
  case no_data
  then show ?thesis using df_tail_last_rows [of n df] by simp
next
  case (data p accs evs1 ts ps evs2 res evs4)
  have s1: "\<forall>e \<in> set evs1. stage_of e = 1"
    using train_loop_stage [of _ K cfg "historical_data K cfg" "(new_predictor K, [])"] data(2)
    by simp
  have s2: "\<forall>e \<in> set evs2. stage_of e = 2"
    using backtest_loop_stage [of _ K "historical_data K cfg" "([], [])"] data(3) by simp
  have s3: "\<forall>e \<in> set (deliver_to_sheets ts ps). stage_of e = 3"
    using deliver_events by blast
  have in4: "e \<in> set (snd (run_algo_prototype K cfg)) \<longleftrightarrow> e \<in> set evs4"
    if "stage_of e = 4" "is_call e" for e
    using that s1 s2 s3 by (cases res) (auto simp: data(5))
  have g: "Ev_generate_signals s fr \<in> set (snd (run_algo_prototype K cfg)) \<longleftrightarrow>
           Ev_generate_signals s fr \<in> set evs4" for s fr
    by (rule in4) simp_all
  have q: "Ev_predict s fr \<in> set (snd (run_algo_prototype K cfg)) \<longleftrightarrow>
           Ev_predict s fr \<in> set evs4" for s fr
    by (rule in4) simp_all
  have a: "Ev_generate_signals s fr \<in> set (snd (run_algo_prototype K cfg)) \<longrightarrow>
      (\<exists>df. (s, df) \<in> set (historical_data K cfg) \<and> df \<noteq> [] \<and>
            fr = df_tail (max (max (RSI_PERIOD cfg) (SHORT_MA_PERIOD cfg)) (LONG_MA_PERIOD cfg) + 1) df)"
    using signal_loop_generate [of s fr K cfg p None "historical_data K cfg"] data(4)
    by (simp add: g signal_window_def)
  have b: "Ev_predict s fr \<in> set (snd (run_algo_prototype K cfg)) \<longrightarrow>
      (\<exists>df. (s, df) \<in> set (historical_data K cfg) \<and> df \<noteq> [] \<and>
            fr = df_tail (max (RSI_PERIOD cfg) 26 + 2) df)"
    using signal_loop_predict [of s fr K cfg p None "historical_data K cfg"] data(4)
    by (auto simp: q prediction_window_def)
  have c: "fst (run_algo_prototype K cfg) = Returned \<and> (s, df) \<in> set (historical_data K cfg) \<and> df \<noteq> [] \<longrightarrow>
      Ev_generate_signals s
        (df_tail (max (max (RSI_PERIOD cfg) (SHORT_MA_PERIOD cfg)) (LONG_MA_PERIOD cfg) + 1) df)
        \<in> set (snd (run_algo_prototype K cfg)) \<and>
      (trained K (fst (fst (train_loop K cfg (historical_data K cfg) (new_predictor K, [])))) \<longrightarrow>
         Ev_predict s (df_tail (max (RSI_PERIOD cfg) 26 + 2) df)
           \<in> set (snd (run_algo_prototype K cfg)))"
    using signal_loop_returned [of K cfg p None "historical_data K cfg" s df] data(2,4)
    by (simp add: g q data(5) signal_window_def prediction_window_def)
  from a b c df_tail_last_rows [of n df] show ?thesis by blast
qed

theorem recompute_windows_witness:
  "fst (run_algo_prototype (stub_components small_cfg 1 [(''A'', rising)]) small_cfg) = Returned \<and>
   (''A'', rising) \<in> set (historical_data (stub_components small_cfg 1 [(''A'', rising)]) small_cfg) \<and>
   rising \<noteq> [] \<and>
   trained (stub_components small_cfg 1 [(''A'', rising)])
     (fst (fst (train_loop (stub_components small_cfg 1 [(''A'', rising)]) small_cfg
        (historical_data (stub_components small_cfg 1 [(''A'', rising)]) small_cfg)
        (new_predictor (stub_components small_cfg 1 [(''A'', rising)]), [])))) \<and>
   Ev_generate_signals ''A'' rising
     \<in> set (snd (run_algo_prototype (stub_components small_cfg 1 [(''A'', rising)]) small_cfg)) \<and>
   Ev_predict ''A'' rising
     \<in> set (snd (run_algo_prototype (stub_components small_cfg 1 [(''A'', rising)]) small_cfg))"
proof -
  have r: "fst (run_algo_prototype (stub_components small_cfg 1 [(''A'', rising)]) small_cfg) = Returned"
    by (simp add: orchestrator_defs stub_defs Let_def)
  have h: "(''A'', rising) \<in> set (historical_data (stub_components small_cfg 1 [(''A'', rising)]) small_cfg)"
    by (simp add: historical_data_def stub_components_def)
  have n: "rising \<noteq> []" by (simp add: rising_def)
  have t: "trained (stub_components small_cfg 1 [(''A'', rising)])
     (fst (fst (train_loop (stub_components small_cfg 1 [(''A'', rising)]) small_cfg
        (historical_data (stub_components small_cfg 1 [(''A'', rising)]) small_cfg)
        (new_predictor (stub_components small_cfg 1 [(''A'', rising)]), []))))"
    by (simp add: orchestrator_defs stub_defs Let_def)
  have w1: "df_tail (max (max (RSI_PERIOD small_cfg) (SHORT_MA_PERIOD small_cfg)) (LONG_MA_PERIOD small_cfg) + 1) rising = rising"
    by (simp add: df_tail_def small_cfg_def rising_def)
  have w2: "df_tail (max (RSI_PERIOD small_cfg) 26 + 2) rising = rising"
    by (simp add: df_tail_def small_cfg_def rising_def)
  from recompute_windows [of "''A''" _ "stub_components small_cfg 1 [(''A'', rising)]" small_cfg rising]
    r h n t w1 w2
  show ?thesis by simp
qed

subsection \<open>Runs without data\<close>

text \<open>
  Claim C6. The run aborts, in the sense that it returns without any training, backtest or
  delivery to the sheets, exactly when no symbol has data, that is, when every fetched
  series is empty; a mapping of every symbol to an empty series goes through the loops,
  which skip every symbol and call no collaborator at all. When some symbols have data, a
  symbol with an empty series (the keys of the mapping being distinct) is skipped by
  training and backtest, and every symbol with data is prepared for training and
  backtested. The early return of line 54, with its error log line, is taken exactly for
  the empty mapping.
\<close>

theorem abort_iff_no_data:
  "((fst (run_algo_prototype K cfg) = Returned \<and>
     (\<forall>e \<in> set (snd (run_algo_prototype K cfg)). \<not> is_processing e)) \<longleftrightarrow>
    (\<forall>(s, df) \<in> set (historical_data K cfg). df = [])) \<and>
   ((\<forall>(s, df) \<in> set (historical_data K cfg). df = []) \<longrightarrow>
      (\<forall>e \<in> set (snd (run_algo_prototype K cfg)). \<not> is_call e)) \<and>
   (distinct (map fst (historical_data K cfg)) \<and> (s, []) \<in> set (historical_data K cfg) \<longrightarrow>
      (\<forall>e \<in> set (snd (run_algo_prototype K cfg)). is_processing e \<longrightarrow> ev_symbol e \<noteq> Some s)) \<and>
   ((s, df) \<in> set (historical_data K cfg) \<and> df \<noteq> [] \<longrightarrow>
      Ev_prepare s df \<in> set (snd (run_algo_prototype K cfg)) \<and>
      Ev_backtest s df \<in> set (snd (run_algo_prototype K cfg))) \<and>
   (Ev_log Error Msg_no_historical_data \<in> set (snd (run_algo_prototype K cfg)) \<longleftrightarrow>
      historical_data K cfg = [])"
proof (cases rule: run_cases [of K cfg])
  case no_data
  then show ?thesis by simp
next
  case (data p accs evs1 ts ps evs2 res evs4)
  let ?hist = "historical_data K cfg"
  have g3: "\<forall>e \<in> set (deliver_to_sheets ts ps). stage_of e = 3"
    using deliver_events by blast
  have g4: "\<forall>e \<in> set evs4. stage_of e = 4"
    using signal_loop_stage [of _ K cfg p None ?hist] data(4) by simp
  have s1: "\<forall>e \<in> set evs1. stage_of e = 1"
    using train_loop_stage [of _ K cfg ?hist "(new_predictor K, [])"] data(2) by simp
  have s2: "\<forall>e \<in> set evs2. stage_of e = 2"
    using backtest_loop_stage [of _ K ?hist "([], [])"] data(3) by simp
  have s3: "\<forall>e \<in> set (deliver_to_sheets ts ps). ev_symbol e = None"
    using deliver_events by blast
  have s4: "\<forall>e \<in> set evs4. \<not> is_processing e"
  proof
    fix e
    assume "e \<in> set evs4"
    with signal_loop_stage [of e K cfg p None ?hist] data(4) have "stage_of e = 4" by simp
    with processing_stage [of e] show "\<not> is_processing e" by auto
  qed
  have p1: "\<exists>s df. ev_symbol e = Some s \<and> (s, df) \<in> set ?hist \<and> df \<noteq> []"
    if "e \<in> set evs1" "is_processing e" for e
    using train_loop_processing [of e K cfg ?hist "(new_predictor K, [])"] that data(2) by simp
  have p2: "\<exists>s df. ev_symbol e = Some s \<and> (s, df) \<in> set ?hist \<and> df \<noteq> []"
    if "e \<in> set evs2" "is_processing e" for e
    using backtest_loop_processing [of e K ?hist "([], [])"] that data(3) by simp
  have p4: "\<exists>s df. ev_symbol e = Some s \<and> (s, df) \<in> set ?hist \<and> df \<noteq> []"
    if "e \<in> set evs4" "is_call e" for e
    using signal_loop_call [of e K cfg p None ?hist] that data(4) by simp
  have mem: "e \<in> set (snd (run_algo_prototype K cfg)) \<Longrightarrow> is_call e \<Longrightarrow>
      e \<in> set evs1 \<or> e \<in> set evs2 \<or> e \<in> set (deliver_to_sheets ts ps) \<or> e \<in> set evs4" for e
    by (cases res) (auto simp: data(5))
  have pre: "Ev_prepare s df \<in> set evs1 \<longleftrightarrow> (s, df) \<in> set ?hist \<and> df \<noteq> []" for s df
    using train_loop_prepare [of s df K cfg ?hist "(new_predictor K, [])"] data(2) by simp
  have bak: "Ev_backtest s df \<in> set evs2 \<longleftrightarrow> (s, df) \<in> set ?hist \<and> df \<noteq> []" for s df
    using backtest_loop_backtest [of s df K ?hist "([], [])"] data(3) by simp
  have d: "(s, df) \<in> set ?hist \<and> df \<noteq> [] \<longrightarrow>
      Ev_prepare s df \<in> set (snd (run_algo_prototype K cfg)) \<and>
      Ev_backtest s df \<in> set (snd (run_algo_prototype K cfg))" for s df
    using pre [of s df] bak [of s df] by (cases res) (auto simp: data(5))
  have c: "distinct (map fst ?hist) \<and> (s, []) \<in> set ?hist \<longrightarrow>
      (\<forall>e \<in> set (snd (run_algo_prototype K cfg)). is_processing e \<longrightarrow> ev_symbol e \<noteq> Some s)"
  proof (intro impI ballI notI, elim conjE)
    fix e
    assume dk: "distinct (map fst ?hist)" and em: "(s, []) \<in> set ?hist"
      and e: "e \<in> set (snd (run_algo_prototype K cfg))" and pe: "is_processing e"
      and se: "ev_symbol e = Some s"
    from mem [OF e is_processing_call [OF pe]] s3 s4 se pe
    have "e \<in> set evs1 \<or> e \<in> set evs2" by auto
    with p1 [of e] p2 [of e] pe se obtain df where "(s, df) \<in> set ?hist" "df \<noteq> []" by auto
    with distinct_keys_same [OF dk em] show False by auto
  qed
  have allempty: "(\<forall>e \<in> set (snd (run_algo_prototype K cfg)). \<not> is_call e) \<and>
      fst (run_algo_prototype K cfg) = Returned"
    if ae: "\<forall>(s, df) \<in> set ?hist. df = []"
  proof -
    from backtest_loop_all_empty [OF ae, of K "([], [])"] data(3)
    have tp: "ts = [] \<and> ps = []" by simp
    have r: "res = Returned" using signal_loop_all_empty [OF ae, of K cfg p None] data(4) by simp
    have "\<not> is_call e" if e: "e \<in> set (snd (run_algo_prototype K cfg))" for e
    proof
      assume ce: "is_call e"
      from mem [OF e ce] consider "e \<in> set evs1" | "e \<in> set evs2"
        | "e \<in> set (deliver_to_sheets ts ps)" | "e \<in> set evs4" by blast
      then show False
      proof cases
        case 1
        with s1 ce have "is_processing e" by (intro early_call_processing) auto
        from p1 [OF 1 this] ae show False by auto
      next
        case 2
        with s2 ce have "is_processing e" by (intro early_call_processing) auto
        from p2 [OF 2 this] ae show False by auto
      next
        case 3
        with tp deliver_nothing [of e] ce show False by simp
      next
        case 4
        from p4 [OF 4 ce] ae show False by auto
      qed
    qed
    with r show ?thesis by (simp add: data(5))
  qed
  have a: "(fst (run_algo_prototype K cfg) = Returned \<and>
     (\<forall>e \<in> set (snd (run_algo_prototype K cfg)). \<not> is_processing e)) \<longleftrightarrow>
    (\<forall>(s, df) \<in> set ?hist. df = [])"
  proof
    assume l: "fst (run_algo_prototype K cfg) = Returned \<and>
     (\<forall>e \<in> set (snd (run_algo_prototype K cfg)). \<not> is_processing e)"
    show "\<forall>(s, df) \<in> set ?hist. df = []"
    proof (intro ballI, clarify)
      fix s df
      assume m: "(s, df) \<in> set ?hist"
      show "df = []"
      proof (rule ccontr)
        assume "df \<noteq> []"
        with d [of s df] m have "Ev_backtest s df \<in> set (snd (run_algo_prototype K cfg))" by simp
        with l show False by fastforce
      qed
    qed
  next
    assume "\<forall>(s, df) \<in> set ?hist. df = []"
    from allempty [OF this] is_processing_call show
      "fst (run_algo_prototype K cfg) = Returned \<and>
       (\<forall>e \<in> set (snd (run_algo_prototype K cfg)). \<not> is_processing e)" by blast
  qed
  have z: "Ev_log Error Msg_no_historical_data \<notin> set (snd (run_algo_prototype K cfg))"
    using s1 s2 g3 g4 by (cases res) (auto simp: data(5))
  from z data(1) have early: "Ev_log Error Msg_no_historical_data
      \<in> set (snd (run_algo_prototype K cfg)) \<longleftrightarrow> historical_data K cfg = []"
    by simp
  from a allempty c d [of s df] early show ?thesis by blast
qed

theorem abort_iff_no_data_witness:
  "historical_data (stub_components small_cfg 1 [(''A'', []), (''B'', [])]) small_cfg
     = [(''A'', []), (''B'', [])] \<and>
   fst (run_algo_prototype (stub_components small_cfg 1 [(''A'', []), (''B'', [])]) small_cfg)
     = Returned \<and>
   filter is_call
     (snd (run_algo_prototype (stub_components small_cfg 1 [(''A'', []), (''B'', [])])
             small_cfg)) = [] \<and>
   distinct (map fst (historical_data (stub_components small_cfg 1 [(''A'', rising), (''B'', [])])
                        small_cfg)) \<and>
   (''B'', []) \<in> set (historical_data (stub_components small_cfg 1 [(''A'', rising), (''B'', [])])
                        small_cfg) \<and>
   (''A'', rising) \<in> set (historical_data (stub_components small_cfg 1 [(''A'', rising), (''B'', [])])
                            small_cfg) \<and>
   rising \<noteq> [] \<and>
   filter (\<lambda>e. is_processing e \<and> ev_symbol e = Some ''B'')
     (snd (run_algo_prototype (stub_components small_cfg 1 [(''A'', rising), (''B'', [])])
             small_cfg)) = [] \<and>
   Ev_prepare ''A'' rising
     \<in> set (snd (run_algo_prototype (stub_components small_cfg 1 [(''A'', rising), (''B'', [])])
                   small_cfg)) \<and>
   Ev_backtest ''A'' rising
     \<in> set (snd (run_algo_prototype (stub_components small_cfg 1 [(''A'', rising), (''B'', [])])
                   small_cfg))"
proof -
  have h: "historical_data (stub_components small_cfg 1 [(''A'', []), (''B'', [])]) small_cfg
     = [(''A'', []), (''B'', [])]"
    by (simp add: historical_data_def stub_components_def)
  have e: "\<forall>(s, df) \<in> set (historical_data (stub_components small_cfg 1 [(''A'', []), (''B'', [])])
                       small_cfg). df = []"
    unfolding h by simp
  have d: "distinct (map fst (historical_data
             (stub_components small_cfg 1 [(''A'', rising), (''B'', [])]) small_cfg))"
    by (simp add: historical_data_def stub_components_def)
  have b: "(''B'', []) \<in> set (historical_data
             (stub_components small_cfg 1 [(''A'', rising), (''B'', [])]) small_cfg)"
    by (simp add: historical_data_def stub_components_def)
  have a: "(''A'', rising) \<in> set (historical_data
             (stub_components small_cfg 1 [(''A'', rising), (''B'', [])]) small_cfg)"
    by (simp add: historical_data_def stub_components_def)
  have n: "rising \<noteq> []" by (simp add: rising_def)
  note t1 = abort_iff_no_data [of "stub_components small_cfg 1 [(''A'', []), (''B'', [])]" small_cfg]
  note t2 = abort_iff_no_data [of "stub_components small_cfg 1 [(''A'', rising), (''B'', [])]" small_cfg
      "''B''"]
  note t3 = abort_iff_no_data [of "stub_components small_cfg 1 [(''A'', rising), (''B'', [])]" small_cfg
      "''A''" rising]
  have db: "distinct (map fst (historical_data
             (stub_components small_cfg 1 [(''A'', rising), (''B'', [])]) small_cfg)) \<and>
     (''B'', []) \<in> set (historical_data
             (stub_components small_cfg 1 [(''A'', rising), (''B'', [])]) small_cfg)"
    using d b by (rule conjI)
  have an: "(''A'', rising) \<in> set (historical_data
             (stub_components small_cfg 1 [(''A'', rising), (''B'', [])]) small_cfg) \<and>
     rising \<noteq> []"
    using a n by (rule conjI)
  note r1 = t1 [THEN conjunct1, THEN iffD2, OF e, THEN conjunct1]
  note r2 = t1 [THEN conjunct2, THEN conjunct1, THEN mp, OF e]
  note r3 = t2 [THEN conjunct2, THEN conjunct2, THEN conjunct1, THEN mp, OF db]
  note r4 = t3 [THEN conjunct2, THEN conjunct2, THEN conjunct2, THEN conjunct1, THEN mp, OF an]
  have f2: "filter is_call
     (snd (run_algo_prototype (stub_components small_cfg 1 [(''A'', []), (''B'', [])])
             small_cfg)) = []"
    using r2 by (simp only: filter_empty_conv)
  have f3: "filter (\<lambda>e. is_processing e \<and> ev_symbol e = Some ''B'')
     (snd (run_algo_prototype (stub_components small_cfg 1 [(''A'', rising), (''B'', [])])
             small_cfg)) = []"
    using r3 by (simp only: filter_empty_conv) blast
  show ?thesis
    apply (intro conjI)
             apply (rule h)
            apply (rule r1)
           apply (rule f2)
          apply (rule d)
         apply (rule b)
        apply (rule a)
       apply (rule n)
      apply (rule f3)
     apply (rule r4 [THEN conjunct1])
    apply (rule r4 [THEN conjunct2])
    done
qed

subsection \<open>Profit and loss of a backtest\<close>

text \<open>
  Claim C7, against the backtest engine of the specification. Every entry that the
  orchestrator stores in its per-symbol summary copies \<open>initial_capital\<close>, \<open>final_capital\<close>
  and \<open>total_pnl\<close> of a non-empty result of the backtest of that symbol's series; for that
  result \<open>final_capital = initial_capital + total_pnl\<close>, and \<open>total_pnl\<close> is the sum of
  \<open>realized_pnl\<close> over the trade log whenever no position is open at the end of the data.
\<close>

theorem pnl_summary_invariant:
  assumes "run_backtest K = spec_run_backtest gen init"
    and "(s, e) \<in> set (snd (fst (backtest_loop K hist ([], []))))"
  shows "\<exists>df r. (s, df) \<in> set hist \<and> df \<noteq> [] \<and> spec_run_backtest gen init s df = Some r \<and>
           pnl_initial_capital e = initial_capital r \<and>
           pnl_final_capital e = final_capital r \<and>
           pnl_total_pnl e = total_pnl r \<and>
           final_capital r = initial_capital r + total_pnl r \<and>
           (open_position (simulate s init (gen df)) = None \<longrightarrow>
              total_pnl r = sum_list (map realized_pnl (trade_log r)))"
proof -
  from backtest_loop_summary [OF assms(2)] obtain df r where
    a: "(s, df) \<in> set hist" "df \<noteq> []" "run_backtest K s df = Some r"
    and e: "e = \<lparr>pnl_initial_capital = initial_capital r, pnl_final_capital = final_capital r,
                   pnl_total_pnl = total_pnl r\<rparr>"
    by auto
  from a(3) assms(1) have b: "spec_run_backtest gen init s df = Some r" by simp
  from spec_run_backtest_invariant [OF b] a b e show ?thesis by auto
qed

theorem pnl_summary_invariant_witness:
  "run_backtest (stub_components small_cfg 1 []) =
     spec_run_backtest (stub_generate_signals small_cfg) 100000 \<and>
   (''A'', \<lparr>pnl_initial_capital = 100000, pnl_final_capital = 125000, pnl_total_pnl = 25000\<rparr>)
     \<in> set (snd (fst (backtest_loop (stub_components small_cfg 1 []) [(''A'', trending)]
                         ([], [])))) \<and>
   open_position (simulate ''A'' 100000 (stub_generate_signals small_cfg trending)) = None \<and>
   (\<exists>df r. (''A'', df) \<in> set [(''A'', trending)] \<and> df \<noteq> [] \<and>
      spec_run_backtest (stub_generate_signals small_cfg) 100000 ''A'' df = Some r \<and>
      pnl_initial_capital
        \<lparr>pnl_initial_capital = 100000, pnl_final_capital = 125000, pnl_total_pnl = 25000\<rparr>
        = initial_capital r \<and>
      pnl_final_capital
        \<lparr>pnl_initial_capital = 100000, pnl_final_capital = 125000, pnl_total_pnl = 25000\<rparr>
        = final_capital r \<and>
      pnl_total_pnl
        \<lparr>pnl_initial_capital = 100000, pnl_final_capital = 125000, pnl_total_pnl = 25000\<rparr>
        = total_pnl r \<and>
      final_capital r = initial_capital r + total_pnl r \<and>
      (open_position (simulate ''A'' 100000 (stub_generate_signals small_cfg df)) = None \<longrightarrow>
         total_pnl r = sum_list (map realized_pnl (trade_log r))))"
proof -
  have h1: "run_backtest (stub_components small_cfg 1 []) =
     spec_run_backtest (stub_generate_signals small_cfg) 100000"
    by (simp add: stub_components_def)
  have h2: "(''A'', \<lparr>pnl_initial_capital = 100000, pnl_final_capital = 125000,
                    pnl_total_pnl = 25000\<rparr>)
     \<in> set (snd (fst (backtest_loop (stub_components small_cfg 1 []) [(''A'', trending)]
                         ([], []))))"
    by (simp add: orchestrator_defs stub_defs trending_def simulate_def backtest_bar_def
        unrealized_pnl_def final_close_def Let_def)
  have h3: "open_position (simulate ''A'' 100000 (stub_generate_signals small_cfg trending)) = None"
    by (simp add: orchestrator_defs stub_defs trending_def simulate_def backtest_bar_def Let_def)
  note c = pnl_summary_invariant [OF h1 h2]
  show ?thesis
    apply (intro conjI)
       apply (rule h1)
      apply (rule h2)
     apply (rule h3)
    apply (rule c)
    done
qed

subsection \<open>The alert of a later symbol\<close>

text \<open>
  Claim C10 says that whether an alert is sent for a later symbol does not depend on the
  series of an earlier symbol when the later symbol's prediction is unavailable. Take the
  two fetched mappings \<open>{A: hold_series, B: buy_series}\<close> and \<open>{A: buy_series, B:
  buy_series}\<close>, which differ only in the series of \<open>A\<close>; every series is too short to
  train on, so the predictor is untrained in both runs. In the first run the signal of \<open>A\<close>
  is HOLD, line 158 reads the unbound \<^verbatim>\<open>next_day_pred\<close> and raises, and the loop never
  reaches \<open>B\<close>: no collaborator is called for \<open>B\<close> in the last loop and no alert is sent
  for it. In the second run the signal of \<open>A\<close> is BUY, the loop goes on, and the BUY alert
  of \<open>B\<close> is sent.
\<close>

theorem earlier_symbol_changes_later_alert:
  "\<not> trained (stub_components small_cfg 10 [(''A'', hold_series), (''B'', buy_series)])
       (fst (fst (train_loop
                    (stub_components small_cfg 10 [(''A'', hold_series), (''B'', buy_series)])
                    small_cfg [(''A'', hold_series), (''B'', buy_series)]
                    (new_predictor
                       (stub_components small_cfg 10 [(''A'', hold_series), (''B'', buy_series)]),
                     [])))) \<and>
   \<not> trained (stub_components small_cfg 10 [(''A'', buy_series), (''B'', buy_series)])
       (fst (fst (train_loop
                    (stub_components small_cfg 10 [(''A'', buy_series), (''B'', buy_series)])
                    small_cfg [(''A'', buy_series), (''B'', buy_series)]
                    (new_predictor
                       (stub_components small_cfg 10 [(''A'', buy_series), (''B'', buy_series)]),
                     [])))) \<and>
   fst (run_algo_prototype
          (stub_components small_cfg 10 [(''A'', hold_series), (''B'', buy_series)]) small_cfg)
     = Raised UnboundLocalError \<and>
   filter (\<lambda>e. stage_of e = 4 \<and> ev_symbol e = Some ''B'')
     (snd (run_algo_prototype
             (stub_components small_cfg 10 [(''A'', hold_series), (''B'', buy_series)])
             small_cfg)) = [] \<and>
   fst (run_algo_prototype
          (stub_components small_cfg 10 [(''A'', buy_series), (''B'', buy_series)]) small_cfg)
     = Returned \<and>
   Ev_send_telegram ''B''
     (''B BUY'' @ [CHR 0x0A] @
      ''ML Prediction (Next Day): N/A - Model Not Trained or Insufficient Data'')
     \<in> set (snd (run_algo_prototype
                   (stub_components small_cfg 10 [(''A'', buy_series), (''B'', buy_series)])
                   small_cfg))"
  by (simp add: orchestrator_defs stub_defs buy_series_def hold_series_def Let_def)

subsection \<open>The fetched tables are not changed\<close>

text \<open>
  Claim C9. Run over a store in which every reference of the fetched mapping points to a
  table, with collaborators that may change the table they are handed in any way: after the
  run every symbol's table holds the rows it held before; every table handed to a
  collaborator during the run is not one of the fetched tables (it is a copy made by the
  run); and the run over the store yields the outcome and the events of the run over the
  rows.
\<close>

theorem fetched_tables_unchanged:
  assumes "allocated h hist"
  shows "contents (snd (process_historical_data_h K E cfg hist h)) hist = contents h hist \<and>
         (\<forall>r \<in> set (handed (snd (process_historical_data_h K E cfg hist h))).
            r \<in> set (handed h) \<or> r \<notin> snd ` set hist) \<and>
         fst (process_historical_data_h K E cfg hist h) =
           process_historical_data K cfg (contents h hist)"
proof -
  from process_historical_data_h_refines [OF assms, of K E cfg]
  have r: "fst (process_historical_data_h K E cfg hist h) =
           process_historical_data K cfg (contents h hist)"
    and e: "extends h (snd (process_historical_data_h K E cfg hist h))" by simp_all
  have f: "r \<in> set (handed h) \<or> r \<notin> snd ` set hist"
    if "r \<in> set (handed (snd (process_historical_data_h K E cfg hist h)))" for r
  proof -
    from e that have "r \<in> set (handed h) \<or> next_ref h \<le> r" by (simp add: extends_def)
    moreover have "a < next_ref h" if "a \<in> snd ` set hist" for a
      using assms that by (auto simp: allocated_def)
    ultimately show ?thesis by fastforce
  qed
  from contents_extends [OF e assms] f r show ?thesis by blast
qed

theorem fetched_tables_unchanged_witness:
  "allocated two_tables [(''A'', 0), (''B'', 1)] \<and>
   contents (snd (process_historical_data_h (stub_components small_cfg 1 []) wiping small_cfg
                    [(''A'', 0), (''B'', 1)] two_tables)) [(''A'', 0), (''B'', 1)]
     = [(''A'', rising), (''B'', falling)] \<and>
   fst (process_historical_data_h (stub_components small_cfg 1 []) wiping small_cfg
          [(''A'', 0), (''B'', 1)] two_tables)
     = process_historical_data (stub_components small_cfg 1 []) small_cfg
         [(''A'', rising), (''B'', falling)] \<and>
   handed (snd (process_historical_data_h (stub_components small_cfg 1 []) wiping small_cfg
                  [(''A'', 0), (''B'', 1)] two_tables))
     = [2, 3, 4, 5, 7, 9, 11, 13] \<and>
   tables (snd (process_historical_data_h (stub_components small_cfg 1 []) wiping small_cfg
                  [(''A'', 0), (''B'', 1)] two_tables)) 2 = []"
proof -
  have a: "allocated two_tables [(''A'', 0), (''B'', 1)]"
    by (simp add: allocated_def two_tables_def)
  have c: "contents two_tables [(''A'', 0), (''B'', 1)] = [(''A'', rising), (''B'', falling)]"
    by (simp add: contents_def two_tables_def)
  note t = fetched_tables_unchanged [OF a, of "stub_components small_cfg 1 []" wiping small_cfg]
  have g: "handed (snd (process_historical_data_h (stub_components small_cfg 1 []) wiping small_cfg
                  [(''A'', 0), (''B'', 1)] two_tables))
     = [2, 3, 4, 5, 7, 9, 11, 13]"
    by (simp add: process_historical_data_h_def train_step_h_def backtest_step_h_def
        signal_step_h_def copy_table_def tail_table_def new_table_def hand_over_def
        two_tables_def wiping_def orchestrator_defs stub_defs Let_def)
  have w: "tables (snd (process_historical_data_h (stub_components small_cfg 1 []) wiping small_cfg
                  [(''A'', 0), (''B'', 1)] two_tables)) 2 = []"
    by (simp add: process_historical_data_h_def train_step_h_def backtest_step_h_def
        signal_step_h_def copy_table_def tail_table_def new_table_def hand_over_def
        two_tables_def wiping_def orchestrator_defs stub_defs Let_def)
  show ?thesis
    apply (intro conjI)
        apply (rule a)
       apply (rule trans [OF t [THEN conjunct1] c])
      apply (rule trans [OF t [THEN conjunct2, THEN conjunct2]])
      apply (simp only: c)
     apply (rule g)
    apply (rule w)
    done
qed

end
